theory Spec2Isabelle
  imports Complex_Main "HOL-Library.AList"
begin

section \<open>Data model\<close>

text \<open>
  The pipeline is single-threaded glue code around the file system, so the model is explicit
  state passing over a file system value.

  \<^item> The content of a file is \<open>Text s\<close> when it holds the encoding of the string \<open>s\<close>, as
    every file written in text mode does, and \<open>Binary b\<close> when it holds any other bytes
    \<open>b\<close>. A string is identified with its encoding, so \<open>bytes_of\<close> gives the bytes of
    either.
  \<^item> A directory is an association list from file names to file contents; the order of the
    list is the order in which \<^verbatim>\<open>os.listdir\<close> reports the names. Overwriting a file keeps
    its place, creating one appends it.
  \<^item> A file system maps the directory paths of \<^verbatim>\<open>config.json\<close> to directories; a path
    that is mapped to \<open>None\<close> does not exist. Directories hold regular files only, and two
    configured paths name the same directory exactly when they are the same string.
    \<^verbatim>\<open>os.path.join(d, n)\<close> is therefore the pair of \<open>d\<close> and \<open>n\<close>.
  \<^item> A raised exception is a value: every operation returns either \<open>Inl (e, fs)\<close>, the
    exception together with the file system as it was when the exception was raised, or
    \<open>Inr (v, fs)\<close>, the returned value and the file system afterwards.
\<close>

datatype error =
    FileNotFoundError string
  | KeyError string
  | ValueError string
  | LibraryError string

fun str_error :: "error \<Rightarrow> string" where
  "str_error (FileNotFoundError m) = m"
| "str_error (KeyError m) = m"
| "str_error (ValueError m) = m"
| "str_error (LibraryError m) = m"

datatype content = Text string | Binary string

fun bytes_of :: "content \<Rightarrow> string" where
  "bytes_of (Text s) = s"
| "bytes_of (Binary b) = b"

type_synonym directory = "(string \<times> content) list"
type_synonym filesystem = "string \<Rightarrow> directory option"
type_synonym 'a result = "(error \<times> filesystem) + ('a \<times> filesystem)"

text \<open>A cell of a table: a missing value, a number or a string.\<close>

datatype cell = NaN | Num rat | Str string

record dataframe =
  columns :: "string list"
  rows :: "cell list list"

text \<open>
  The library functions whose results depend on file formats or on numerical optimisation are
  parameters of the model: the CSV parser and printer of pandas, \<^verbatim>\<open>pickle\<close>, the fitting and
  prediction of the scikit-learn classifier (\<open>fit_model\<close> stands for \<^verbatim>\<open>train_test_split\<close>
  with its fixed seed followed by \<^verbatim>\<open>LogisticRegression.fit\<close> on the training part), the
  conversions between floating-point numbers and text, and the decoding of bytes that were
  not written as text, which raises when the bytes are no text in the encoding in use.
  \<open>'m\<close> is the type of fitted models.
\<close>

datatype pyfloat = Finite rat | PosInf | NegInf | NotANumber

record 'm library =
  read_csv :: "string \<Rightarrow> error + dataframe"
  to_csv :: "dataframe \<Rightarrow> string"
  pickle_load :: "string \<Rightarrow> error + 'm"
  pickle_dump :: "'m \<Rightarrow> string"
  fit_model :: "dataframe \<Rightarrow> cell list \<Rightarrow> error + 'm"
  predict :: "'m \<Rightarrow> dataframe \<Rightarrow> error + cell list"
  float_str :: "rat \<Rightarrow> string"
  float_parse :: "string \<Rightarrow> error + pyfloat"
  decode :: "string \<Rightarrow> error + string"

section \<open>File system operations\<close>

definition no_such_file :: "string \<Rightarrow> string \<Rightarrow> error" where
  "no_such_file d n =
     FileNotFoundError (''[Errno 2] No such file or directory: '' @ d @ ''/'' @ n)"

definition path_exists :: "filesystem \<Rightarrow> string \<Rightarrow> string \<Rightarrow> bool" where
  "path_exists fs d n = (case fs d of None \<Rightarrow> False | Some es \<Rightarrow> map_of es n \<noteq> None)"

definition listdir :: "filesystem \<Rightarrow> string \<Rightarrow> error + string list" where
  "listdir fs d = (case fs d of None \<Rightarrow> Inl (no_such_file d []) | Some es \<Rightarrow> Inr (map fst es))"

definition read_file :: "filesystem \<Rightarrow> string \<Rightarrow> string \<Rightarrow> error + content" where
  "read_file fs d n =
     (case fs d of
        None \<Rightarrow> Inl (no_such_file d n)
      | Some es \<Rightarrow> (case map_of es n of None \<Rightarrow> Inl (no_such_file d n) | Some c \<Rightarrow> Inr c))"

definition write_file :: "filesystem \<Rightarrow> string \<Rightarrow> string \<Rightarrow> content \<Rightarrow> unit result" where
  "write_file fs d n c =
     (case fs d of
        None \<Rightarrow> Inl (no_such_file d n, fs)
      | Some es \<Rightarrow> Inr ((), fs(d \<mapsto> AList.update n c es)))"

definition makedirs :: "filesystem \<Rightarrow> string \<Rightarrow> filesystem" where
  "makedirs fs d = (case fs d of None \<Rightarrow> fs(d \<mapsto> []) | Some es \<Rightarrow> fs)"

text \<open>
  Reading a file in text mode, \<^verbatim>\<open>open(path, 'r').read()\<close>: the bytes are decoded and
  every carriage return, with the line feed that may follow it, becomes one line feed. What
  was written as text decodes to itself; other bytes may fail to decode.
\<close>

fun universal_newlines :: "string \<Rightarrow> string" where
  "universal_newlines [] = []"
| "universal_newlines (c # s) =
     (if c = CHR 0x0D then
        (case s of
           [] \<Rightarrow> [CHR 0x0A]
         | c2 # s2 \<Rightarrow>
             if c2 = CHR 0x0A then CHR 0x0A # universal_newlines s2
             else CHR 0x0A # universal_newlines s)
      else c # universal_newlines s)"

definition decode_content :: "'m library \<Rightarrow> content \<Rightarrow> error + string" where
  "decode_content L c = (case c of Text s \<Rightarrow> Inr s | Binary b \<Rightarrow> decode L b)"

definition read_text :: "'m library \<Rightarrow> filesystem \<Rightarrow> string \<Rightarrow> string \<Rightarrow> error + string" where
  "read_text L fs d n =
     (case read_file fs d n of
        Inl e \<Rightarrow> Inl e
      | Inr c \<Rightarrow>
          (case decode_content L c of
             Inl e \<Rightarrow> Inl e
           | Inr s \<Rightarrow> Inr (universal_newlines s)))"

section \<open>Ingestion\<close>

definition endswith :: "string \<Rightarrow> string \<Rightarrow> bool" where
  "endswith s suf = (length suf \<le> length s \<and> drop (length s - length suf) s = suf)"

abbreviation is_csv :: "string \<Rightarrow> bool" where
  "is_csv f \<equiv> endswith f ''.csv''"

text \<open>The first loop of \<^verbatim>\<open>merge_multiple_dataframe\<close>: one line per CSV file name.\<close>

fun manifest_lines :: "string list \<Rightarrow> string" where
  "manifest_lines [] = []"
| "manifest_lines (f # files) =
     (if is_csv f then f @ [CHR 0x0A] @ manifest_lines files else manifest_lines files)"

definition pd_read_csv :: "'m library \<Rightarrow> filesystem \<Rightarrow> string \<Rightarrow> string \<Rightarrow> error + dataframe" where
  "pd_read_csv L fs d n = (case read_file fs d n of Inl e \<Rightarrow> Inl e | Inr c \<Rightarrow> read_csv L (bytes_of c))"

text \<open>The second loop: the CSV files are parsed in listing order; the first failure is raised.\<close>

fun read_frames :: "'m library \<Rightarrow> filesystem \<Rightarrow> string \<Rightarrow> string list \<Rightarrow> error + dataframe list" where
  "read_frames L fs d [] = Inr []"
| "read_frames L fs d (f # files) =
     (if is_csv f then
        (case pd_read_csv L fs d f of
           Inl e \<Rightarrow> Inl e
         | Inr df \<Rightarrow>
             (case read_frames L fs d files of Inl e \<Rightarrow> Inl e | Inr dfs \<Rightarrow> Inr (df # dfs)))
      else read_frames L fs d files)"

text \<open>
  \<^verbatim>\<open>pd.concat(dataframes, ignore_index=True)\<close>: the columns are the union of the frames'
  columns in order of first appearance, every row is re-aligned to them with \<open>NaN\<close> for a
  column its frame does not have, and the rows follow each other in the order of the frames.
\<close>

fun first_seen :: "'a list \<Rightarrow> 'a list \<Rightarrow> 'a list" where
  "first_seen seen [] = []"
| "first_seen seen (x # xs) =
     (if x \<in> set seen then first_seen seen xs else x # first_seen (x # seen) xs)"

definition union_columns :: "dataframe list \<Rightarrow> string list" where
  "union_columns dfs = first_seen [] (concat (map columns dfs))"

definition reindex_row :: "string list \<Rightarrow> string list \<Rightarrow> cell list \<Rightarrow> cell list" where
  "reindex_row cols old_cols row =
     map (\<lambda>c. case map_of (zip old_cols row) c of None \<Rightarrow> NaN | Some v \<Rightarrow> v) cols"

definition pd_concat :: "dataframe list \<Rightarrow> dataframe" where
  "pd_concat dfs =
     \<lparr>columns = union_columns dfs,
      rows = concat (map (\<lambda>df. map (reindex_row (union_columns dfs) (columns df)) (rows df)) dfs)\<rparr>"

text \<open>
  \<^verbatim>\<open>DataFrame.drop_duplicates\<close> keeps the rows that \<^verbatim>\<open>DataFrame.duplicated\<close> does not
  mark; with the default \<^verbatim>\<open>keep='first'\<close> a row is marked when an equal row precedes it.
\<close>

fun duplicated_from :: "'a list \<Rightarrow> 'a list \<Rightarrow> bool list" where
  "duplicated_from seen [] = []"
| "duplicated_from seen (r # rs) = (r \<in> set seen) # duplicated_from (r # seen) rs"

definition duplicated :: "'a list \<Rightarrow> bool list" where
  "duplicated rs = duplicated_from [] rs"

definition unmarked :: "'a list \<Rightarrow> bool list \<Rightarrow> 'a list" where
  "unmarked rs marks = map fst (filter (\<lambda>p. \<not> snd p) (zip rs marks))"

definition drop_duplicates :: "dataframe \<Rightarrow> dataframe" where
  "drop_duplicates df = df\<lparr>rows := unmarked (rows df) (duplicated (rows df))\<rparr>"

text \<open>
  The number of duplicate rows of a table, as the specification speaks of them: the rows
  that are left over when one row of every group of equal rows is set aside.
\<close>

definition duplicate_rows :: "'a list \<Rightarrow> nat" where
  "duplicate_rows rs = length rs - card (set rs)"

definition merge_multiple_dataframe ::
  "'m library \<Rightarrow> string \<Rightarrow> string \<Rightarrow> filesystem \<Rightarrow> unit result" where
  "merge_multiple_dataframe L input_folder_path output_folder_path fs =
     (case listdir fs input_folder_path of
        Inl e \<Rightarrow> Inl (e, fs)
      | Inr files \<Rightarrow>
          (case write_file fs output_folder_path ''ingestedfiles.txt''
                  (Text (manifest_lines files)) of
             Inl x \<Rightarrow> Inl x
           | Inr (u, fs1) \<Rightarrow>
               (case read_frames L fs1 input_folder_path files of
                  Inl e \<Rightarrow> Inl (e, fs1)
                | Inr dataframes \<Rightarrow>
                    if dataframes \<noteq> [] then
                      write_file fs1 output_folder_path ''finaldata.csv''
                        (Text (to_csv L (drop_duplicates (pd_concat dataframes))))
                    else Inr ((), fs1))))"

text \<open>
  Two observations used to state what ingestion depends on: the entries of a directory whose
  names end in \<^verbatim>\<open>.csv\<close>, and what a run leaves in one directory (with the exception, if
  one was raised).
\<close>

definition seen_in :: "string \<Rightarrow> unit result \<Rightarrow> error \<times> directory option + directory option" where
  "seen_in d r = (case r of Inl (e, s) \<Rightarrow> Inl (e, s d) | Inr (u, s) \<Rightarrow> Inr (s d))"

abbreviation csv_entries :: "directory \<Rightarrow> directory" where
  "csv_entries es \<equiv> filter (\<lambda>p. is_csv (fst p)) es"

section \<open>Training\<close>

text \<open>
  \<^verbatim>\<open>DataFrame.drop\<close> of a list of column labels raises \<^verbatim>\<open>KeyError\<close> when a label is
  not a column; \<^verbatim>\<open>df[label]\<close> does the same for a single label.
\<close>

definition drop_columns :: "string list \<Rightarrow> dataframe \<Rightarrow> error + dataframe" where
  "drop_columns labels df =
     (case filter (\<lambda>l. l \<notin> set (columns df)) labels of
        [] \<Rightarrow>
          Inr \<lparr>columns = filter (\<lambda>c. c \<notin> set labels) (columns df),
               rows = map (\<lambda>r. map snd (filter (\<lambda>p. fst p \<notin> set labels) (zip (columns df) r)))
                        (rows df)\<rparr>
      | l # ls \<Rightarrow> Inl (KeyError (concat (l # ls) @ '' not found in axis'')))"

definition get_column :: "string \<Rightarrow> dataframe \<Rightarrow> error + cell list" where
  "get_column c df =
     (if c \<in> set (columns df) then
        Inr (map (\<lambda>r. case map_of (zip (columns df) r) c of None \<Rightarrow> NaN | Some v \<Rightarrow> v) (rows df))
      else Inl (KeyError c))"

definition train :: "'m library \<Rightarrow> string \<Rightarrow> string \<Rightarrow> filesystem \<Rightarrow> unit result" where
  "train L output_model_path output_folder_path fs =
     (case pd_read_csv L fs output_folder_path ''finaldata.csv'' of
        Inl e \<Rightarrow> Inl (e, fs)
      | Inr data \<Rightarrow>
          (case drop_columns [''corporation'', ''exited''] data of
             Inl e \<Rightarrow> Inl (e, fs)
           | Inr x \<Rightarrow>
               (case get_column ''exited'' data of
                  Inl e \<Rightarrow> Inl (e, fs)
                | Inr y \<Rightarrow>
                    (case fit_model L x y of
                       Inl e \<Rightarrow> Inl (e, fs)
                     | Inr model \<Rightarrow>
                         write_file fs output_model_path ''trainedmodel.pkl''
                           (Binary (pickle_dump L model))))))"

section \<open>Scoring\<close>

text \<open>
  \<^verbatim>\<open>metrics.f1_score(y_test, y_pred, average='weighted')\<close> in exact arithmetic: for every
  label occurring in either list, the F1 score of that label is \<open>2 tp / (2 tp + fp + fn)\<close>
  (\<open>0\<close> when the denominator is \<open>0\<close>), and the result is the mean of these scores weighted by
  the number of true instances of each label (\<open>0\<close> when there is no instance at all).
  \<^verbatim>\<open>ValueError\<close> is raised for lists of different lengths, for a missing value, and for
  targets that are not class labels: the labels must be all whole numbers or all strings.
  Floating-point rounding is not modelled: scores are rational numbers.
\<close>

fun number_label :: "cell \<Rightarrow> bool" where
  "number_label (Num r) = (r = of_int \<lfloor>r\<rfloor>)"
| "number_label c = False"

fun string_label :: "cell \<Rightarrow> bool" where
  "string_label (Str t) = True"
| "string_label c = False"

definition class_labels :: "cell list \<Rightarrow> bool" where
  "class_labels ys = (list_all number_label ys \<or> list_all string_label ys)"

definition count_where :: "('a \<Rightarrow> bool) \<Rightarrow> 'a list \<Rightarrow> nat" where
  "count_where P xs = length (filter P xs)"

definition true_positives :: "cell \<Rightarrow> (cell \<times> cell) list \<Rightarrow> nat" where
  "true_positives c pairs = count_where (\<lambda>p. fst p = c \<and> snd p = c) pairs"

definition false_positives :: "cell \<Rightarrow> (cell \<times> cell) list \<Rightarrow> nat" where
  "false_positives c pairs = count_where (\<lambda>p. fst p \<noteq> c \<and> snd p = c) pairs"

definition false_negatives :: "cell \<Rightarrow> (cell \<times> cell) list \<Rightarrow> nat" where
  "false_negatives c pairs = count_where (\<lambda>p. fst p = c \<and> snd p \<noteq> c) pairs"

definition support :: "cell \<Rightarrow> (cell \<times> cell) list \<Rightarrow> nat" where
  "support c pairs = count_where (\<lambda>p. fst p = c) pairs"

definition label_f1 :: "cell \<Rightarrow> (cell \<times> cell) list \<Rightarrow> rat" where
  "label_f1 c pairs =
     (let tp = true_positives c pairs; fp = false_positives c pairs;
          fn = false_negatives c pairs
      in if 2 * tp + fp + fn = 0 then 0 else of_nat (2 * tp) / of_nat (2 * tp + fp + fn))"

definition f1_score_weighted :: "cell list \<Rightarrow> cell list \<Rightarrow> error + rat" where
  "f1_score_weighted y_true y_pred =
     (if length y_true \<noteq> length y_pred then
        Inl (ValueError ''Found input variables with inconsistent numbers of samples'')
      else if NaN \<in> set (y_true @ y_pred) then Inl (ValueError ''Input contains NaN'')
      else if \<not> class_labels (y_true @ y_pred) then
        Inl (ValueError ''Classification metrics cannot handle these targets'')
      else
        let pairs = zip y_true y_pred;
            labels = remdups (y_true @ y_pred);
            total = sum_list (map (\<lambda>c. support c pairs) labels)
        in if total = 0 then Inr 0
           else Inr (sum_list (map (\<lambda>c. label_f1 c pairs * of_nat (support c pairs)) labels)
                       / of_nat total))"

text \<open>
  The attributes \<^verbatim>\<open>self.model\<close> and \<^verbatim>\<open>self.test_data\<close> of a \<^verbatim>\<open>ModelScorer\<close> are
  \<open>None\<close> until the two loaders have run; they are arguments of \<open>score_model\<close>.
\<close>

definition load_model :: "'m library \<Rightarrow> string \<Rightarrow> filesystem \<Rightarrow> error + 'm" where
  "load_model L model_path fs =
     (case read_file fs model_path ''trainedmodel.pkl'' of
        Inl e \<Rightarrow> Inl e
      | Inr c \<Rightarrow> pickle_load L (bytes_of c))"

definition load_test_data :: "'m library \<Rightarrow> string \<Rightarrow> filesystem \<Rightarrow> error + dataframe" where
  "load_test_data L test_data_path fs = pd_read_csv L fs test_data_path ''testdata.csv''"

definition score_model ::
  "'m library \<Rightarrow> string \<Rightarrow> 'm option \<Rightarrow> dataframe option \<Rightarrow> filesystem \<Rightarrow> rat result" where
  "score_model L model_path model test_data fs =
     (case model of
        None \<Rightarrow> Inl (ValueError ''Model or test data not loaded.'', fs)
      | Some m \<Rightarrow>
          (case test_data of
             None \<Rightarrow> Inl (ValueError ''Model or test data not loaded.'', fs)
           | Some td \<Rightarrow>
               (case drop_columns [''corporation'', ''exited''] td of
                  Inl e \<Rightarrow> Inl (e, fs)
                | Inr x_test \<Rightarrow>
                    (case get_column ''exited'' td of
                       Inl e \<Rightarrow> Inl (e, fs)
                     | Inr y_test \<Rightarrow>
                         (case predict L m x_test of
                            Inl e \<Rightarrow> Inl (e, fs)
                          | Inr y_pred \<Rightarrow>
                              (case f1_score_weighted y_test y_pred of
                                 Inl e \<Rightarrow> Inl (e, fs)
                               | Inr f1_score \<Rightarrow>
                                   (case write_file fs model_path ''latestscore.txt''
                                           (Text (float_str L f1_score)) of
                                      Inl x \<Rightarrow> Inl x
                                    | Inr (u, fs') \<Rightarrow> Inr (f1_score, fs'))))))))"

section \<open>Deployment\<close>

text \<open>
  The three presence checks come first; then the production directory is created if need be,
  the model is unpickled and pickled again into the production directory, and the two text
  files are read in text mode and written in text mode, each after the one before it. An
  exception raised by a later step leaves what the earlier steps wrote.
\<close>

definition deploy_model :: "'m library \<Rightarrow> string \<Rightarrow> string \<Rightarrow> filesystem \<Rightarrow> unit result" where
  "deploy_model L output_folder_path prod_deployment_path fs =
     (if \<not> path_exists fs output_folder_path ''trainedmodel.pkl'' then
        Inl (FileNotFoundError (''Model file not found at '' @ output_folder_path
               @ ''/trainedmodel.pkl''), fs)
      else if \<not> path_exists fs output_folder_path ''latestscore.txt'' then
        Inl (FileNotFoundError (''Latest score file not found at '' @ output_folder_path
               @ ''/latestscore.txt''), fs)
      else if \<not> path_exists fs output_folder_path ''ingestedfiles.txt'' then
        Inl (FileNotFoundError (''Ingest files file not found at '' @ output_folder_path
               @ ''/ingestedfiles.txt''), fs)
      else
        let fs0 = makedirs fs prod_deployment_path in
        (case load_model L output_folder_path fs0 of
           Inl e \<Rightarrow> Inl (e, fs0)
         | Inr model \<Rightarrow>
             (case write_file fs0 prod_deployment_path ''trainedmodel.pkl''
                     (Binary (pickle_dump L model)) of
                Inl x \<Rightarrow> Inl x
              | Inr (u1, fs1) \<Rightarrow>
                  (case read_text L fs1 output_folder_path ''latestscore.txt'' of
                     Inl e \<Rightarrow> Inl (e, fs1)
                   | Inr latest_score \<Rightarrow>
                       (case write_file fs1 prod_deployment_path ''latestscore.txt''
                               (Text latest_score) of
                          Inl x \<Rightarrow> Inl x
                        | Inr (u2, fs2) \<Rightarrow>
                            (case read_text L fs2 output_folder_path ''ingestedfiles.txt'' of
                               Inl e \<Rightarrow> Inl (e, fs2)
                             | Inr ingest_files \<Rightarrow>
                                 write_file fs2 prod_deployment_path ''ingestedfiles.txt''
                                   (Text ingest_files)))))))"

section \<open>The automation driver\<close>

record config =
  input_folder_path :: string
  output_folder_path :: string
  test_data_path :: string
  prod_deployment_path :: string
  base_data_path :: string

text \<open>
  \<^verbatim>\<open>str.splitlines\<close> on the line boundaries of ASCII (a carriage return followed by a line
  feed is one boundary), and \<^verbatim>\<open>str.strip\<close> on the white space of ASCII.
\<close>

definition is_linebreak :: "char \<Rightarrow> bool" where
  "is_linebreak c =
     (c \<in> {CHR 0x0A, CHR 0x0B, CHR 0x0C, CHR 0x0D, CHR 0x1C, CHR 0x1D, CHR 0x1E})"

fun splitlines_from :: "string \<Rightarrow> string \<Rightarrow> string list" where
  "splitlines_from cur [] = (if cur = [] then [] else [cur])"
| "splitlines_from cur (c # s) =
     (if is_linebreak c then
        (case s of
           [] \<Rightarrow> [cur]
         | c2 # s2 \<Rightarrow>
             if c = CHR 0x0D \<and> c2 = CHR 0x0A then cur # splitlines_from [] s2
             else cur # splitlines_from [] s)
      else splitlines_from (cur @ [c]) s)"

definition splitlines :: "string \<Rightarrow> string list" where
  "splitlines s = splitlines_from [] s"

definition is_space :: "char \<Rightarrow> bool" where
  "is_space c =
     (c \<in> {CHR 0x09, CHR 0x0A, CHR 0x0B, CHR 0x0C, CHR 0x0D,
            CHR 0x1C, CHR 0x1D, CHR 0x1E, CHR 0x1F, CHR 0x20})"

definition strip :: "string \<Rightarrow> string" where
  "strip s = rev (dropWhile is_space (rev (dropWhile is_space s)))"

text \<open>
  The comparison \<^verbatim>\<open>new_score != base_model_score\<close> of two floating-point numbers: a
  not-a-number is unequal to everything, itself included.
\<close>

definition py_ne :: "pyfloat \<Rightarrow> pyfloat \<Rightarrow> bool" where
  "py_ne a b = (a = NotANumber \<or> b = NotANumber \<or> a \<noteq> b)"

datatype outcome = NoNewData | NoDrift | Deployed

text \<open>
  Lines 18 to 25 of the script: the lines of the manifest of the production deployment, none
  when there is no manifest.
\<close>

definition ingested_files_list :: "'m library \<Rightarrow> config \<Rightarrow> filesystem \<Rightarrow> error + string list" where
  "ingested_files_list L cfg fs =
     (if path_exists fs (prod_deployment_path cfg) ''ingestedfiles.txt'' then
        (case read_text L fs (prod_deployment_path cfg) ''ingestedfiles.txt'' of
           Inl e \<Rightarrow> Inl e
         | Inr text \<Rightarrow> Inr (splitlines text))
      else Inr [])"

text \<open>
  Lines 45 to 52: every file of the manifest that exists under the base data path is copied
  into the source directory by the shell command \<^verbatim>\<open>cp\<close>, whose failure is not noticed. File
  names are taken to be free of characters that the shell interprets.
\<close>

definition cp :: "filesystem \<Rightarrow> string \<Rightarrow> string \<Rightarrow> string \<Rightarrow> filesystem" where
  "cp fs base f dest =
     (case read_file fs base f of
        Inl e \<Rightarrow> fs
      | Inr c \<Rightarrow> (case write_file fs dest f c of Inl x \<Rightarrow> fs | Inr (u, fs') \<Rightarrow> fs'))"

fun copy_forward :: "string \<Rightarrow> string \<Rightarrow> string list \<Rightarrow> filesystem \<Rightarrow> filesystem" where
  "copy_forward base dest [] fs = fs"
| "copy_forward base dest (f # files) fs =
     copy_forward base dest files (if path_exists fs base f then cp fs base f dest else fs)"

text \<open>Lines 71 to 77: the score of the deployed model, \<open>0.0\<close> when there is none.\<close>

definition base_model_score :: "'m library \<Rightarrow> config \<Rightarrow> filesystem \<Rightarrow> error + pyfloat" where
  "base_model_score L cfg fs =
     (if path_exists fs (prod_deployment_path cfg) ''latestscore.txt'' then
        (case read_text L fs (prod_deployment_path cfg) ''latestscore.txt'' of
           Inl e \<Rightarrow> Inl e
         | Inr text \<Rightarrow> float_parse L (strip text))
      else Inr (Finite 0))"

text \<open>Lines 79 to 85: the score of the model in the output folder.\<close>

definition new_model_score :: "'m library \<Rightarrow> config \<Rightarrow> filesystem \<Rightarrow> rat result" where
  "new_model_score L cfg fs =
     (case load_model L (output_folder_path cfg) fs of
        Inl e \<Rightarrow> Inl (e, fs)
      | Inr m \<Rightarrow>
          (case load_test_data L (test_data_path cfg) fs of
             Inl e \<Rightarrow> Inl (e, fs)
           | Inr td \<Rightarrow> score_model L (output_folder_path cfg) (Some m) (Some td) fs))"

text \<open>Lines 69 to 96: the drift check.\<close>

definition drift_check :: "'m library \<Rightarrow> config \<Rightarrow> filesystem \<Rightarrow> outcome result" where
  "drift_check L cfg fs =
     (case base_model_score L cfg fs of
        Inl e \<Rightarrow> Inl (e, fs)
      | Inr base \<Rightarrow>
          (case new_model_score L cfg fs of
             Inl x \<Rightarrow> Inl x
           | Inr (new_score, fs1) \<Rightarrow>
               if py_ne (Finite new_score) base then
                 (case deploy_model L (output_folder_path cfg) (prod_deployment_path cfg) fs1 of
                    Inl x \<Rightarrow> Inl x
                  | Inr (u, fs2) \<Rightarrow> Inr (Deployed, fs2))
               else Inr (NoDrift, fs1)))"

text \<open>Lines 54 to 66: ingestion and training on the source directory.\<close>

definition retrain :: "'m library \<Rightarrow> config \<Rightarrow> filesystem \<Rightarrow> unit result" where
  "retrain L cfg fs =
     (case merge_multiple_dataframe L (input_folder_path cfg) (output_folder_path cfg) fs of
        Inl x \<Rightarrow> Inl x
      | Inr (u, fs1) \<Rightarrow> train L (output_folder_path cfg) (output_folder_path cfg) fs1)"

text \<open>
  The whole script up to the drift check. Its last line starts \<^verbatim>\<open>apicalls.py\<close>, a client of
  an HTTP server that is a process of its own; that call is outside the model.
\<close>

definition fullprocess :: "'m library \<Rightarrow> config \<Rightarrow> filesystem \<Rightarrow> outcome result" where
  "fullprocess L cfg fs =
     (case ingested_files_list L cfg fs of
        Inl e \<Rightarrow> Inl (e, fs)
      | Inr ingested \<Rightarrow>
          (case listdir fs (input_folder_path cfg) of
             Inl e \<Rightarrow> Inl (e, fs)
           | Inr source_files \<Rightarrow>
               let new_data_files = filter (\<lambda>file. file \<notin> set ingested) source_files
               in if new_data_files = [] then Inr (NoNewData, fs)
                  else
                    (case retrain L cfg
                            (copy_forward (base_data_path cfg) (input_folder_path cfg)
                               ingested fs) of
                       Inl x \<Rightarrow> Inl x
                     | Inr (u, fs3) \<Rightarrow> drift_check L cfg fs3)))"

section \<open>HTTP endpoints\<close>

text \<open>
  A view function either returns a response, a body with a status code, or lets an exception
  escape to the framework (\<open>Inl\<close>).
\<close>

datatype body = ErrorBody string | MessageBody string | ScoreBody rat

type_synonym response = "body \<times> nat"

definition first_run_stages :: "'m library \<Rightarrow> config \<Rightarrow> filesystem \<Rightarrow> unit result" where
  "first_run_stages L cfg fs =
     (case retrain L cfg fs of
        Inl x \<Rightarrow> Inl x
      | Inr (u, fs1) \<Rightarrow>
          (case new_model_score L cfg fs1 of
             Inl x \<Rightarrow> Inl x
           | Inr (f1_score, fs2) \<Rightarrow>
               deploy_model L (output_folder_path cfg) (prod_deployment_path cfg) fs2))"

definition first_run :: "'m library \<Rightarrow> config \<Rightarrow> filesystem \<Rightarrow> response result" where
  "first_run L cfg fs =
     (case first_run_stages L cfg fs of
        Inl (e, fs') \<Rightarrow> Inr ((ErrorBody (str_error e), 500), fs')
      | Inr (u, fs') \<Rightarrow> Inr ((MessageBody ''First run completed successfully'', 200), fs'))"

definition scoring_stats :: "'m library \<Rightarrow> config \<Rightarrow> filesystem \<Rightarrow> response result" where
  "scoring_stats L cfg fs =
     (case load_model L (prod_deployment_path cfg) fs of
        Inl e \<Rightarrow> Inl (e, fs)
      | Inr m \<Rightarrow>
          (case load_test_data L (test_data_path cfg) fs of
             Inl e \<Rightarrow> Inl (e, fs)
           | Inr td \<Rightarrow>
               (case score_model L (prod_deployment_path cfg) (Some m) (Some td) fs of
                  Inl x \<Rightarrow> Inl x
                | Inr (f1_score, fs') \<Rightarrow> Inr ((ScoreBody f1_score, 200), fs'))))"

section \<open>A small instance of the library\<close>

text \<open>
  To evaluate the model on concrete file systems the library parameters are instantiated
  with a miniature of each: comma-separated text without quoting, a pickle format that
  prefixes a letter, a classifier that always predicts the outcome of the first training row,
  a printer for the three scores \<open>0\<close>, \<open>1/2\<close> and \<open>1\<close>, and a decoder that rejects the
  byte \<open>0xFF\<close>.
\<close>

fun split_commas_from :: "string \<Rightarrow> string \<Rightarrow> string list" where
  "split_commas_from cur [] = [cur]"
| "split_commas_from cur (c # s) =
     (if c = CHR '','' then cur # split_commas_from [] s else split_commas_from (cur @ [c]) s)"

definition parse_cell :: "string \<Rightarrow> cell" where
  "parse_cell t = (if t = [] then NaN else Str t)"

definition mini_read_csv :: "string \<Rightarrow> error + dataframe" where
  "mini_read_csv s =
     (case splitlines s of
        [] \<Rightarrow> Inl (LibraryError ''No columns to parse from file'')
      | h # ls \<Rightarrow>
          Inr \<lparr>columns = split_commas_from [] h,
               rows = map (\<lambda>l. map parse_cell (split_commas_from [] l)) ls\<rparr>)"

fun join_commas :: "string list \<Rightarrow> string" where
  "join_commas [] = []"
| "join_commas [t] = t"
| "join_commas (t # ts) = t @ '','' @ join_commas ts"

fun print_cell :: "cell \<Rightarrow> string" where
  "print_cell NaN = []"
| "print_cell (Num r) = ''#''"
| "print_cell (Str t) = t"

definition mini_to_csv :: "dataframe \<Rightarrow> string" where
  "mini_to_csv df =
     concat (map (\<lambda>l. l @ [CHR 0x0A])
       (join_commas (columns df) # map (\<lambda>r. join_commas (map print_cell r)) (rows df)))"

definition mini_pickle_load :: "string \<Rightarrow> error + cell" where
  "mini_pickle_load s =
     (case s of
        [] \<Rightarrow> Inl (LibraryError ''Ran out of input'')
      | c # t \<Rightarrow> if c = CHR ''P'' then Inr (parse_cell t)
                 else Inl (LibraryError ''invalid load key''))"

definition mini_fit :: "dataframe \<Rightarrow> cell list \<Rightarrow> error + cell" where
  "mini_fit x y = (case y of [] \<Rightarrow> Inl (ValueError ''empty training set'') | c # cs \<Rightarrow> Inr c)"

definition mini_float_str :: "rat \<Rightarrow> string" where
  "mini_float_str r = (if r = 0 then ''0.0'' else if r = 1 then ''1.0'' else ''0.5'')"

definition mini_float_parse :: "string \<Rightarrow> error + pyfloat" where
  "mini_float_parse s =
     (if s = ''0.0'' then Inr (Finite 0)
      else if s = ''1.0'' then Inr (Finite 1)
      else if s = ''0.5'' then Inr (Finite (1 / 2))
      else if s = ''nan'' then Inr NotANumber
      else Inl (ValueError ''could not convert string to float''))"

definition mini_decode :: "string \<Rightarrow> error + string" where
  "mini_decode b =
     (if CHR 0xFF \<in> set b then Inl (LibraryError ''invalid start byte'') else Inr b)"

definition mini_library :: "cell library" where
  "mini_library =
     \<lparr>read_csv = mini_read_csv,
      to_csv = mini_to_csv,
      pickle_load = mini_pickle_load,
      pickle_dump = (\<lambda>m. CHR ''P'' # print_cell m),
      fit_model = mini_fit,
      predict = (\<lambda>m x. Inr (replicate (length (rows x)) m)),
      float_str = mini_float_str,
      float_parse = mini_float_parse,
      decode = mini_decode\<rparr>"

text \<open>
  A file system to run the pipeline on: two CSV files that share a row and one text file in
  the source directory, a test set, and empty output and production directories.
\<close>

definition example_input :: directory where
  "example_input =
     [(''a.csv'', Text ''corporation,x,exited\<newline>ab,1,0\<newline>ab,1,0\<newline>''),
      (''notes.txt'', Text ''hello''),
      (''b.csv'', Text ''corporation,x,exited\<newline>ab,1,0\<newline>cd,2,1\<newline>'')]"

definition example_fs :: filesystem where
  "example_fs =
     (\<lambda>d. None)
       (''in'' \<mapsto> example_input,
        ''out'' \<mapsto> [],
        ''test'' \<mapsto>
          [(''testdata.csv'', Text ''corporation,x,exited\<newline>ef,1,0\<newline>gh,2,0\<newline>'')],
        ''prod'' \<mapsto> [])"

definition example_frames :: "dataframe list" where
  "example_frames =
     [\<lparr>columns = [''corporation'', ''x'', ''exited''],
       rows = [[Str ''ab'', Str ''1'', Str ''0''], [Str ''ab'', Str ''1'', Str ''0'']]\<rparr>,
      \<lparr>columns = [''corporation'', ''x'', ''exited''],
       rows = [[Str ''ab'', Str ''1'', Str ''0''], [Str ''cd'', Str ''2'', Str ''1'']]\<rparr>]"

definition example_config :: config where
  "example_config =
     \<lparr>input_folder_path = ''in'', output_folder_path = ''out'', test_data_path = ''test'',
      prod_deployment_path = ''prod'', base_data_path = ''base''\<rparr>"

text \<open>
  The same file system after ingestion, with the CSV files removed from the source
  directory afterwards, and with the text file removed from the source directory.
\<close>

definition ingested_fs :: filesystem where
  "ingested_fs =
     example_fs(''out'' \<mapsto>
       [(''ingestedfiles.txt'', Text ''a.csv\<newline>b.csv\<newline>''),
        (''finaldata.csv'', Text ''corporation,x,exited\<newline>ab,1,0\<newline>cd,2,1\<newline>'')])"

definition no_csv_fs :: filesystem where
  "no_csv_fs = ingested_fs(''in'' \<mapsto> [(''notes.txt'', Text ''hello'')])"

definition csv_only_fs :: filesystem where
  "csv_only_fs =
     example_fs(''in'' \<mapsto>
       [(''a.csv'', Text ''corporation,x,exited\<newline>ab,1,0\<newline>ab,1,0\<newline>''),
        (''b.csv'', Text ''corporation,x,exited\<newline>ab,1,0\<newline>cd,2,1\<newline>'')])"

text \<open>
  The output directory as the pipeline leaves it after scoring, and one whose model file is
  not a pickle.
\<close>

definition staged_fs :: filesystem where
  "staged_fs =
     example_fs(''out'' \<mapsto>
       [(''ingestedfiles.txt'', Text ''a.csv\<newline>b.csv\<newline>''),
        (''finaldata.csv'', Text ''corporation,x,exited\<newline>ab,1,0\<newline>cd,2,1\<newline>''),
        (''trainedmodel.pkl'', Binary ''P0''),
        (''latestscore.txt'', Text ''1.0'')])"

definition corrupt_fs :: filesystem where
  "corrupt_fs =
     example_fs(''out'' \<mapsto>
       [(''ingestedfiles.txt'', Text ''a.csv\<newline>b.csv\<newline>''),
        (''trainedmodel.pkl'', Binary ''garbage''),
        (''latestscore.txt'', Text ''1.0'')])"

text \<open>One whose model file is a pickle and whose score file cannot be decoded.\<close>

definition undecodable_fs :: filesystem where
  "undecodable_fs =
     example_fs(''out'' \<mapsto>
       [(''ingestedfiles.txt'', Text ''a.csv\<newline>b.csv\<newline>''),
        (''trainedmodel.pkl'', Binary ''P0''),
        (''latestscore.txt'', Binary [CHR 0xFF])])"

text \<open>The test set of the example as a table.\<close>

definition example_test_frame :: dataframe where
  "example_test_frame =
     \<lparr>columns = [''corporation'', ''x'', ''exited''],
      rows = [[Str ''ef'', Str ''1'', Str ''0''], [Str ''gh'', Str ''2'', Str ''0'']]\<rparr>"

text \<open>A test set with an outcome column and no \<^verbatim>\<open>corporation\<close> column.\<close>

definition no_corporation_frame :: dataframe where
  "no_corporation_frame =
     \<lparr>columns = [''x'', ''exited''],
      rows = [[Str ''1'', Str ''0''], [Str ''2'', Str ''1'']]\<rparr>"

text \<open>
  The output directory after training and after scoring; a file system in which nothing is
  new, one whose production directory holds a score and no manifest, and one whose test set
  the constant classifier gets wrong on every row.
\<close>

definition trained_out :: directory where
  "trained_out =
     [(''ingestedfiles.txt'', Text ''a.csv\<newline>b.csv\<newline>''),
      (''finaldata.csv'', Text ''corporation,x,exited\<newline>ab,1,0\<newline>cd,2,1\<newline>''),
      (''trainedmodel.pkl'', Binary ''P0'')]"

definition staged_out :: "string \<Rightarrow> directory" where
  "staged_out score = trained_out @ [(''latestscore.txt'', Text score)]"

definition settled_fs :: filesystem where
  "settled_fs =
     example_fs
       (''in'' \<mapsto>
          [(''a.csv'', Text ''corporation,x,exited\<newline>ab,1,0\<newline>ab,1,0\<newline>''),
           (''b.csv'', Text ''corporation,x,exited\<newline>ab,1,0\<newline>cd,2,1\<newline>'')],
        ''out'' \<mapsto> staged_out ''1.0'',
        ''prod'' \<mapsto>
          [(''trainedmodel.pkl'', Binary ''P0''), (''latestscore.txt'', Text ''1.0''),
           (''ingestedfiles.txt'', Text ''a.csv\<newline>b.csv\<newline>'')])"

definition scored_prod_fs :: filesystem where
  "scored_prod_fs = example_fs(''prod'' \<mapsto> [(''latestscore.txt'', Text ''1.0'')])"

definition zero_test_fs :: filesystem where
  "zero_test_fs =
     example_fs(''test'' \<mapsto>
       [(''testdata.csv'', Text ''corporation,x,exited\<newline>ef,1,1\<newline>gh,2,1\<newline>'')])"

section \<open>Properties of ingestion\<close>

lemmas mini_simps = mini_library_def mini_decode_def mini_read_csv_def mini_to_csv_def mini_pickle_load_def
  mini_fit_def mini_float_str_def mini_float_parse_def parse_cell_def splitlines_def
  is_linebreak_def endswith_def

lemmas fs_simps = read_text_def decode_content_def read_file_def write_file_def listdir_def path_exists_def makedirs_def
  pd_read_csv_def

lemma merge_example:
  "merge_multiple_dataframe mini_library ''in'' ''out'' example_fs = Inr ((), ingested_fs)"
  by (simp add: merge_multiple_dataframe_def example_fs_def example_input_def ingested_fs_def
        mini_simps fs_simps drop_duplicates_def pd_concat_def union_columns_def reindex_row_def
        duplicated_def unmarked_def)

lemma unmarked_Cons:
  "unmarked (r # rs) (m # ms) = (if m then unmarked rs ms else r # unmarked rs ms)"
  by (simp add: unmarked_def)

lemma unmarked_Nil: "unmarked [] ms = []"
  by (simp add: unmarked_def)

lemma length_duplicated_from: "length (duplicated_from seen rs) = length rs"
  by (induction rs arbitrary: seen) simp_all

lemma unmarked_count:
  "length (unmarked rs (duplicated_from seen rs)) + length (filter id (duplicated_from seen rs))
     = length rs"
  by (induction rs arbitrary: seen) (simp_all add: unmarked_Cons unmarked_Nil)

lemma set_unmarked:
  "set (unmarked rs (duplicated_from seen rs)) = set rs - set seen"
  by (induction rs arbitrary: seen) (auto simp: unmarked_Cons unmarked_Nil)

lemma distinct_unmarked: "distinct (unmarked rs (duplicated_from seen rs))"
  by (induction rs arbitrary: seen) (simp_all add: unmarked_Cons unmarked_Nil set_unmarked)

lemma rows_pd_concat:
  "length (rows (pd_concat dfs)) = sum_list (map (\<lambda>df. length (rows df)) dfs)"
  by (simp add: pd_concat_def length_concat comp_def)

lemma not_csv_manifest: "\<not> is_csv ''ingestedfiles.txt''"
  by (simp add: endswith_def)

lemma read_frames_cong:
  "(\<And>n. is_csv n \<Longrightarrow> read_file fs d n = read_file fs2 d n) \<Longrightarrow>
     read_frames L fs d files = read_frames L fs2 d files"
  by (induction files) (simp_all add: pd_read_csv_def split: sum.splits)

lemma manifest_lines_filter: "manifest_lines (filter is_csv files) = manifest_lines files"
  by (induction files) simp_all

lemma manifest_lines_concat:
  "manifest_lines files = concat (map (\<lambda>f. f @ [CHR 0x0A]) (filter is_csv files))"
  by (induction files) simp_all

lemma read_frames_filter: "read_frames L fs d (filter is_csv files) = read_frames L fs d files"
  by (induction files) (simp_all split: sum.splits)


lemma read_file_write_other:
  "fs d2 = Some os \<Longrightarrow> n \<noteq> n2 \<Longrightarrow>
     read_file (fs(d2 \<mapsto> AList.update n2 c os)) d n = read_file fs d n"
  by (simp add: read_file_def update_conv')

lemma read_file_write_same:
  "read_file (fs(d \<mapsto> AList.update n c os)) d n = Inr c"
  by (simp add: read_file_def update_conv')

lemma read_frames_after_manifest:
  "fs out = Some os \<Longrightarrow>
     read_frames L (fs(out \<mapsto> AList.update ''ingestedfiles.txt'' c os)) d files
       = read_frames L fs d files"
proof (rule read_frames_cong)
  fix n assume os: "fs out = Some os" and "is_csv n"
  then have "n \<noteq> ''ingestedfiles.txt''"
    using not_csv_manifest by blast
  with os show "read_file (fs(out \<mapsto> AList.update ''ingestedfiles.txt'' c os)) d n
                  = read_file fs d n"
    by (rule read_file_write_other)
qed

lemma drop_duplicates_rows:
  "distinct (rows (drop_duplicates df)) \<and> set (rows (drop_duplicates df)) = set (rows df) \<and>
   length (rows (drop_duplicates df)) = length (rows df) - duplicate_rows (rows df) \<and>
   length (filter id (duplicated (rows df))) = duplicate_rows (rows df)"
proof -
  let ?rs = "rows df" and ?kept = "rows (drop_duplicates df)"
  have kept: "?kept = unmarked ?rs (duplicated_from [] ?rs)"
    by (simp add: drop_duplicates_def duplicated_def)
  have dist: "distinct ?kept"
    unfolding kept by (rule distinct_unmarked)
  have same: "set ?kept = set ?rs"
    unfolding kept by (simp add: set_unmarked)
  have len: "length ?kept = card (set ?rs)"
    using dist same distinct_card [of ?kept] by simp
  have le: "card (set ?rs) \<le> length ?rs"
    by (rule card_length)
  have cnt: "length ?kept + length (filter id (duplicated ?rs)) = length ?rs"
    unfolding kept duplicated_def by (rule unmarked_count)
  from len le have l: "length ?kept = length ?rs - duplicate_rows ?rs"
    by (simp add: duplicate_rows_def)
  from len cnt have m: "length (filter id (duplicated ?rs)) = duplicate_rows ?rs"
    by (simp add: duplicate_rows_def)
  from dist same l m show ?thesis
    by (intro conjI)
qed

text \<open>
  Claim C3. When ingestion finds at least one CSV file and every one of them parses, it returns
  and writes the merged table to \<^verbatim>\<open>finaldata.csv\<close>. The concatenation has as many rows as
  the input files have together. The merged table has at most that many rows, exactly that
  many less the duplicate rows of the concatenation, no row twice, and every row of the
  concatenation once.
\<close>

theorem merged_row_count:
  assumes inp: "fs inp = Some es" and out: "fs out = Some os"
    and frames: "read_frames L fs inp (map fst es) = Inr dfs" and ne: "dfs \<noteq> []"
  shows "\<exists>fs'. merge_multiple_dataframe L inp out fs = Inr ((), fs') \<and>
           read_file fs' out ''finaldata.csv''
             = Inr (Text (to_csv L (drop_duplicates (pd_concat dfs)))) \<and>
           length (rows (pd_concat dfs)) = sum_list (map (\<lambda>df. length (rows df)) dfs) \<and>
           length (rows (drop_duplicates (pd_concat dfs)))
             \<le> sum_list (map (\<lambda>df. length (rows df)) dfs) \<and>
           length (rows (drop_duplicates (pd_concat dfs)))
             = sum_list (map (\<lambda>df. length (rows df)) dfs)
                 - duplicate_rows (rows (pd_concat dfs)) \<and>
           distinct (rows (drop_duplicates (pd_concat dfs))) \<and>
           set (rows (drop_duplicates (pd_concat dfs))) = set (rows (pd_concat dfs))"
proof -
  let ?all = "rows (pd_concat dfs)"
  let ?merged = "drop_duplicates (pd_concat dfs)"
  let ?fs1 = "fs(out \<mapsto> AList.update ''ingestedfiles.txt'' (Text (manifest_lines (map fst es))) os)"
  let ?os1 = "AList.update ''ingestedfiles.txt'' (Text (manifest_lines (map fst es))) os"
  let ?fs2 = "?fs1(out \<mapsto> AList.update ''finaldata.csv'' (Text (to_csv L ?merged)) ?os1)"
  have r1: "read_frames L ?fs1 inp (map fst es) = Inr dfs"
    using frames out by (simp add: read_frames_after_manifest)
  have run: "merge_multiple_dataframe L inp out fs = Inr ((), ?fs2)"
    using inp out r1 ne by (simp add: merge_multiple_dataframe_def listdir_def write_file_def)
  have written: "read_file ?fs2 out ''finaldata.csv'' = Inr (Text (to_csv L ?merged))"
    by (rule read_file_write_same)
  have total: "length ?all = sum_list (map (\<lambda>df. length (rows df)) dfs)"
    by (rule rows_pd_concat)
  from drop_duplicates_rows [of "pd_concat dfs"]
  have dist: "distinct (rows ?merged)" and same: "set (rows ?merged) = set ?all"
    and len: "length (rows ?merged) = length ?all - duplicate_rows ?all"
    by simp_all
  from len total have eq: "length (rows ?merged)
      = sum_list (map (\<lambda>df. length (rows df)) dfs) - duplicate_rows ?all"
    by simp
  then have le: "length (rows ?merged) \<le> sum_list (map (\<lambda>df. length (rows df)) dfs)"
    by simp
  from run written total le eq dist same show ?thesis
    by blast
qed

theorem merged_row_count_witness:
  "read_frames mini_library example_fs ''in'' (map fst example_input) = Inr example_frames \<and>
   example_frames \<noteq> [] \<and>
   (\<exists>fs'. merge_multiple_dataframe mini_library ''in'' ''out'' example_fs = Inr ((), fs') \<and>
      read_file fs' ''out'' ''finaldata.csv''
        = Inr (Text (to_csv mini_library (drop_duplicates (pd_concat example_frames)))) \<and>
      length (rows (pd_concat example_frames))
        = sum_list (map (\<lambda>df. length (rows df)) example_frames) \<and>
      length (rows (drop_duplicates (pd_concat example_frames)))
        \<le> sum_list (map (\<lambda>df. length (rows df)) example_frames) \<and>
      length (rows (drop_duplicates (pd_concat example_frames)))
        = sum_list (map (\<lambda>df. length (rows df)) example_frames)
            - duplicate_rows (rows (pd_concat example_frames)) \<and>
      distinct (rows (drop_duplicates (pd_concat example_frames))) \<and>
      set (rows (drop_duplicates (pd_concat example_frames)))
        = set (rows (pd_concat example_frames)))"
proof -
  have h1: "example_fs ''in'' = Some example_input"
    by (simp add: example_fs_def)
  have h2: "example_fs ''out'' = Some []"
    by (simp add: example_fs_def)
  have h3: "read_frames mini_library example_fs ''in'' (map fst example_input)
              = Inr example_frames"
    by (simp add: example_fs_def example_input_def example_frames_def mini_library_def
          pd_read_csv_def read_file_def endswith_def mini_read_csv_def splitlines_def
          is_linebreak_def parse_cell_def)
  have h4: "example_frames \<noteq> []"
    by (simp add: example_frames_def)
  from h3 h4 merged_row_count [OF h1 h2 h3 h4] show ?thesis
    by (intro conjI)
qed

text \<open>
  On the example the four input rows hold two duplicates, and two rows are written.
\<close>

lemma merged_example_rows:
  "rows (pd_concat example_frames)
     = [[Str ''ab'', Str ''1'', Str ''0''], [Str ''ab'', Str ''1'', Str ''0''],
        [Str ''ab'', Str ''1'', Str ''0''], [Str ''cd'', Str ''2'', Str ''1'']] \<and>
   duplicate_rows (rows (pd_concat example_frames)) = 2 \<and>
   rows (drop_duplicates (pd_concat example_frames))
     = [[Str ''ab'', Str ''1'', Str ''0''], [Str ''cd'', Str ''2'', Str ''1'']]"
  by (simp add: example_frames_def pd_concat_def union_columns_def reindex_row_def
        drop_duplicates_def duplicated_def unmarked_def duplicate_rows_def)

lemma read_frames_dir:
  "fs d = fs2 d \<Longrightarrow> read_frames L fs d files = read_frames L fs2 d files"
  by (rule read_frames_cong) (simp add: read_file_def)

lemma write_file_again:
  "fs d = Some es \<Longrightarrow> map_of es n = Some c \<Longrightarrow> write_file fs d n c = Inr ((), fs)"
  by (simp add: write_file_def update_triv fun_upd_idem)

text \<open>
  Claim C4. When a run of ingestion returns and has left the input directory as it was, a
  second run returns as well and leaves the file system as the first run left it: the same
  manifest and the same merged table.
\<close>

theorem merge_idempotent:
  assumes run: "merge_multiple_dataframe L inp out fs = Inr (u, fs1)"
    and same: "fs1 inp = fs inp"
  shows "merge_multiple_dataframe L inp out fs1 = Inr (u, fs1)"
proof -
  from run obtain es where inp: "fs inp = Some es"
    by (auto simp: merge_multiple_dataframe_def listdir_def split: option.splits)
  from run inp obtain os where out: "fs out = Some os"
    by (auto simp: merge_multiple_dataframe_def listdir_def write_file_def split: option.splits)
  let ?m = "Text (manifest_lines (map fst es))"
  let ?os1 = "AList.update ''ingestedfiles.txt'' ?m os"
  let ?fsm = "fs(out \<mapsto> ?os1)"
  from run inp out obtain dfs where frames: "read_frames L ?fsm inp (map fst es) = Inr dfs"
    by (auto simp: merge_multiple_dataframe_def listdir_def write_file_def split: sum.splits)
  then have frames0: "read_frames L fs inp (map fst es) = Inr dfs"
    using out by (simp add: read_frames_after_manifest)
  have frames1: "read_frames L fs1 inp (map fst es) = Inr dfs"
    using frames0 same read_frames_dir [of fs1 inp fs L "map fst es"] by simp
  show ?thesis
  proof (cases "dfs = []")
    case True
    with run inp out frames have fs1: "fs1 = ?fsm"
      by (simp add: merge_multiple_dataframe_def listdir_def write_file_def)
    have "write_file fs1 out ''ingestedfiles.txt'' ?m = Inr ((), fs1)"
      by (rule write_file_again [where es = ?os1]) (simp_all add: fs1 update_conv')
    with inp same frames1 True show ?thesis
      by (simp add: merge_multiple_dataframe_def listdir_def)
  next
    case False
    let ?c = "Text (to_csv L (drop_duplicates (pd_concat dfs)))"
    let ?os2 = "AList.update ''finaldata.csv'' ?c ?os1"
    from False run inp out frames have fs1: "fs1 = ?fsm(out \<mapsto> ?os2)"
      by (simp add: merge_multiple_dataframe_def listdir_def write_file_def)
    have w1: "write_file fs1 out ''ingestedfiles.txt'' ?m = Inr ((), fs1)"
      by (rule write_file_again [where es = ?os2]) (simp_all add: fs1 update_conv')
    have w2: "write_file fs1 out ''finaldata.csv'' ?c = Inr ((), fs1)"
      by (rule write_file_again [where es = ?os2]) (simp_all add: fs1 update_conv')
    from inp same frames1 False w1 w2 show ?thesis
      by (simp add: merge_multiple_dataframe_def listdir_def)
  qed
qed

theorem merge_idempotent_witness:
  "merge_multiple_dataframe mini_library ''in'' ''out'' example_fs = Inr ((), ingested_fs) \<and>
   ingested_fs ''in'' = example_fs ''in'' \<and>
   merge_multiple_dataframe mini_library ''in'' ''out'' ingested_fs = Inr ((), ingested_fs)"
proof -
  have h1: "merge_multiple_dataframe mini_library ''in'' ''out'' example_fs
              = Inr ((), ingested_fs)"
    by (rule merge_example)
  have h2: "ingested_fs ''in'' = example_fs ''in''"
    by (simp add: ingested_fs_def)
  from h1 h2 merge_idempotent [OF h1 h2] show ?thesis
    by (intro conjI)
qed

text \<open>
  Claim C10. When no name in the input directory ends in \<^verbatim>\<open>.csv\<close>, ingestion returns,
  the manifest in the output directory is overwritten with the empty text, and nothing else
  changes; in particular \<^verbatim>\<open>finaldata.csv\<close> is what it was before the run.
\<close>

theorem merge_without_csv:
  assumes inp: "fs inp = Some es" and out: "fs out = Some os"
    and none: "filter is_csv (map fst es) = []"
  shows "merge_multiple_dataframe L inp out fs
           = Inr ((), fs(out \<mapsto> AList.update ''ingestedfiles.txt'' (Text []) os)) \<and>
         read_file (fs(out \<mapsto> AList.update ''ingestedfiles.txt'' (Text []) os)) out ''finaldata.csv''
           = read_file fs out ''finaldata.csv''"
proof -
  have m: "manifest_lines (map fst es) = []"
    using none by (simp add: manifest_lines_concat)
  have "read_frames L fs2 inp (map fst es) = read_frames L fs2 inp []" for fs2
    using read_frames_filter [of L fs2 inp "map fst es"] none by simp
  then have r: "read_frames L fs2 inp (map fst es) = Inr []" for fs2
    by simp
  have run: "merge_multiple_dataframe L inp out fs
               = Inr ((), fs(out \<mapsto> AList.update ''ingestedfiles.txt'' (Text []) os))"
    using inp out m r by (simp add: merge_multiple_dataframe_def listdir_def write_file_def)
  have keep: "read_file (fs(out \<mapsto> AList.update ''ingestedfiles.txt'' (Text []) os)) out ''finaldata.csv''
                = read_file fs out ''finaldata.csv''"
    using out by (simp add: read_file_write_other)
  from run keep show ?thesis ..
qed

theorem merge_without_csv_witness:
  "filter is_csv (map fst [(''notes.txt'', Text ''hello'')]) = [] \<and>
   merge_multiple_dataframe mini_library ''in'' ''out'' no_csv_fs
     = Inr ((), no_csv_fs(''out'' \<mapsto>
         [(''ingestedfiles.txt'', Text []),
          (''finaldata.csv'', Text ''corporation,x,exited\<newline>ab,1,0\<newline>cd,2,1\<newline>'')])) \<and>
   read_file (no_csv_fs(''out'' \<mapsto>
         [(''ingestedfiles.txt'', Text []),
          (''finaldata.csv'', Text ''corporation,x,exited\<newline>ab,1,0\<newline>cd,2,1\<newline>'')]))
       ''out'' ''finaldata.csv''
     = read_file no_csv_fs ''out'' ''finaldata.csv''"
proof -
  have h1: "no_csv_fs ''in'' = Some [(''notes.txt'', Text ''hello'')]"
    by (simp add: no_csv_fs_def)
  have h2: "no_csv_fs ''out'' = Some [(''ingestedfiles.txt'', Text ''a.csv\<newline>b.csv\<newline>''),
        (''finaldata.csv'', Text ''corporation,x,exited\<newline>ab,1,0\<newline>cd,2,1\<newline>'')]"
    by (simp add: no_csv_fs_def ingested_fs_def)
  have h3: "filter is_csv (map fst [(''notes.txt'', Text ''hello'')]) = []"
    by (simp add: endswith_def)
  from h3 merge_without_csv [OF h1 h2 h3, of mini_library] show ?thesis
    by simp
qed

lemma map_of_csv_entries: "is_csv n \<Longrightarrow> map_of (csv_entries es) n = map_of es n"
  by (induction es) auto

lemma names_csv_entries: "map fst (csv_entries es) = filter is_csv (map fst es)"
  by (induction es) auto

lemma read_frames_csv_only:
  assumes d: "fs d = Some es" and d2: "fs2 d = Some es2"
    and csv: "csv_entries es = csv_entries es2"
  shows "read_frames L fs d (map fst es) = read_frames L fs2 d (map fst es2)"
proof -
  have same: "read_file fs d n = read_file fs2 d n" if "is_csv n" for n
    using d d2 csv map_of_csv_entries [OF that, of es] map_of_csv_entries [OF that, of es2]
    by (simp add: read_file_def)
  have "read_frames L fs d (map fst es) = read_frames L fs d (map fst (csv_entries es))"
    by (simp add: names_csv_entries read_frames_filter)
  also have "\<dots> = read_frames L fs2 d (map fst (csv_entries es2))"
    using same unfolding csv by (rule read_frames_cong)
  also have "\<dots> = read_frames L fs2 d (map fst es2)"
    by (simp add: names_csv_entries read_frames_filter)
  finally show ?thesis .
qed

lemma manifest_csv_only:
  "csv_entries es = csv_entries es2 \<Longrightarrow>
     manifest_lines (map fst es) = manifest_lines (map fst es2)"
  using manifest_lines_filter [of "map fst es"] manifest_lines_filter [of "map fst es2"]
    names_csv_entries [of es] names_csv_entries [of es2]
  by simp

text \<open>
  Claim C8. Ingestion depends on the input directory only through its entries whose names end
  in \<^verbatim>\<open>.csv\<close>: two file systems that agree on these entries and on the output directory
  give the same exception or the same output directory. The manifest written by a run that
  returns has one line for each name ending in \<^verbatim>\<open>.csv\<close>, in listing order, and no other
  line.
\<close>

theorem merge_only_csv:
  assumes inp: "fs inp = Some es" and inp2: "fs2 inp = Some es2"
    and csv: "csv_entries es = csv_entries es2"
    and out: "fs out = fs2 out" and ne: "inp \<noteq> out"
  shows "seen_in out (merge_multiple_dataframe L inp out fs)
           = seen_in out (merge_multiple_dataframe L inp out fs2) \<and>
         (\<forall>u fs'. merge_multiple_dataframe L inp out fs = Inr (u, fs') \<longrightarrow>
            read_file fs' out ''ingestedfiles.txt''
              = Inr (Text (concat (map (\<lambda>f. f @ [CHR 0x0A]) (filter is_csv (map fst es))))))"
proof
  show "seen_in out (merge_multiple_dataframe L inp out fs)
          = seen_in out (merge_multiple_dataframe L inp out fs2)"
  proof (cases "fs out")
    case None
    with inp inp2 out show ?thesis
      by (simp add: merge_multiple_dataframe_def listdir_def write_file_def seen_in_def)
  next
    case (Some os)
    let ?m = "Text (manifest_lines (map fst es))"
    let ?os1 = "AList.update ''ingestedfiles.txt'' ?m os"
    have m: "manifest_lines (map fst es2) = manifest_lines (map fst es)"
      using csv [symmetric] by (rule manifest_csv_only)
    have "read_frames L (fs(out \<mapsto> ?os1)) inp (map fst es)
            = read_frames L (fs2(out \<mapsto> ?os1)) inp (map fst es2)"
    proof (rule read_frames_csv_only)
      show "(fs(out \<mapsto> ?os1)) inp = Some es" using inp ne by simp
      show "(fs2(out \<mapsto> ?os1)) inp = Some es2" using inp2 ne by simp
      show "csv_entries es = csv_entries es2" by (rule csv)
    qed
    then have frames: "read_frames L (fs2(out \<mapsto> ?os1)) inp (map fst es2)
                         = read_frames L (fs(out \<mapsto> ?os1)) inp (map fst es)"
      by simp
    have os2: "fs2 out = Some os"
      using out Some by simp
    let ?r = "read_frames L (fs(out \<mapsto> ?os1)) inp (map fst es)"
    have run1: "merge_multiple_dataframe L inp out fs =
        (case ?r of
           Inl e \<Rightarrow> Inl (e, fs(out \<mapsto> ?os1))
         | Inr dataframes \<Rightarrow>
             if dataframes \<noteq> [] then
               write_file (fs(out \<mapsto> ?os1)) out ''finaldata.csv''
                 (Text (to_csv L (drop_duplicates (pd_concat dataframes))))
             else Inr ((), fs(out \<mapsto> ?os1)))"
      unfolding merge_multiple_dataframe_def listdir_def write_file_def
      by (simp only: inp Some option.case sum.case prod.case list.map)
    have run2: "merge_multiple_dataframe L inp out fs2 =
        (case ?r of
           Inl e \<Rightarrow> Inl (e, fs2(out \<mapsto> ?os1))
         | Inr dataframes \<Rightarrow>
             if dataframes \<noteq> [] then
               write_file (fs2(out \<mapsto> ?os1)) out ''finaldata.csv''
                 (Text (to_csv L (drop_duplicates (pd_concat dataframes))))
             else Inr ((), fs2(out \<mapsto> ?os1)))"
      unfolding merge_multiple_dataframe_def listdir_def write_file_def
      by (simp only: inp2 os2 m frames option.case sum.case prod.case list.map)
    show ?thesis
    proof (cases ?r)
      case (Inl e)
      have "seen_in out (merge_multiple_dataframe L inp out fs) = Inl (e, Some ?os1)"
        by (simp only: run1 Inl sum.case seen_in_def prod.case fun_upd_same)
      moreover have "seen_in out (merge_multiple_dataframe L inp out fs2) = Inl (e, Some ?os1)"
        by (simp only: run2 Inl sum.case seen_in_def prod.case fun_upd_same)
      ultimately show ?thesis by simp
    next
      case (Inr dfs)
      show ?thesis
      proof (cases "dfs = []")
        case True
        have "seen_in out (merge_multiple_dataframe L inp out fs) = Inr (Some ?os1)"
          by (simp only: run1 Inr True sum.case seen_in_def prod.case fun_upd_same
                not_False_eq_True if_False simp_thms)
        moreover have "seen_in out (merge_multiple_dataframe L inp out fs2) = Inr (Some ?os1)"
          by (simp only: run2 Inr True sum.case seen_in_def prod.case fun_upd_same
                not_False_eq_True if_False simp_thms)
        ultimately show ?thesis by simp
      next
        case False
        let ?os2 = "AList.update ''finaldata.csv''
                      (Text (to_csv L (drop_duplicates (pd_concat dfs)))) ?os1"
        have "seen_in out (merge_multiple_dataframe L inp out fs) = Inr (Some ?os2)"
          by (simp only: run1 Inr False sum.case seen_in_def prod.case fun_upd_same
                write_file_def option.case if_True simp_thms)
        moreover have "seen_in out (merge_multiple_dataframe L inp out fs2) = Inr (Some ?os2)"
          by (simp only: run2 Inr False sum.case seen_in_def prod.case fun_upd_same
                write_file_def option.case if_True simp_thms)
        ultimately show ?thesis by simp
      qed
    qed
  qed
next
  show "\<forall>u fs'. merge_multiple_dataframe L inp out fs = Inr (u, fs') \<longrightarrow>
          read_file fs' out ''ingestedfiles.txt''
            = Inr (Text (concat (map (\<lambda>f. f @ [CHR 0x0A]) (filter is_csv (map fst es)))))"
  proof (intro allI impI)
    fix u fs'
    assume run: "merge_multiple_dataframe L inp out fs = Inr (u, fs')"
    from run inp obtain os where os: "fs out = Some os"
      by (cases "fs out") (simp_all add: merge_multiple_dataframe_def listdir_def write_file_def)
    let ?m = "Text (manifest_lines (map fst es))"
    let ?fs1 = "fs(out \<mapsto> AList.update ''ingestedfiles.txt'' ?m os)"
    have m: "read_file ?fs1 out ''ingestedfiles.txt'' = Inr ?m"
      by (rule read_file_write_same)
    from run inp os obtain dfs where dfs: "read_frames L ?fs1 inp (map fst es) = Inr dfs"
      by (cases "read_frames L ?fs1 inp (map fst es)")
         (simp_all add: merge_multiple_dataframe_def listdir_def write_file_def)
    have "read_file fs' out ''ingestedfiles.txt'' = Inr ?m"
    proof (cases "dfs = []")
      case True
      with run inp os dfs have "fs' = ?fs1"
        by (simp add: merge_multiple_dataframe_def listdir_def write_file_def)
      with m show ?thesis by simp
    next
      case False
      with run inp os dfs have "fs' = ?fs1(out \<mapsto> AList.update ''finaldata.csv''
          (Text (to_csv L (drop_duplicates (pd_concat dfs))))
          (AList.update ''ingestedfiles.txt'' ?m os))"
        by (simp add: merge_multiple_dataframe_def listdir_def write_file_def)
      then show ?thesis
        by (simp add: read_file_def update_conv')
    qed
    then show "read_file fs' out ''ingestedfiles.txt''
                 = Inr (Text (concat (map (\<lambda>f. f @ [CHR 0x0A]) (filter is_csv (map fst es)))))"
      by (simp add: manifest_lines_concat)
  qed
qed

theorem merge_only_csv_witness:
  "csv_entries example_input
     = csv_entries [(''a.csv'', Text ''corporation,x,exited\<newline>ab,1,0\<newline>ab,1,0\<newline>''),
                    (''b.csv'', Text ''corporation,x,exited\<newline>ab,1,0\<newline>cd,2,1\<newline>'')] \<and>
   seen_in ''out'' (merge_multiple_dataframe mini_library ''in'' ''out'' example_fs)
     = seen_in ''out'' (merge_multiple_dataframe mini_library ''in'' ''out'' csv_only_fs) \<and>
   read_file ingested_fs ''out'' ''ingestedfiles.txt''
     = Inr (Text (concat (map (\<lambda>f. f @ [CHR 0x0A]) (filter is_csv (map fst example_input)))))"
proof -
  let ?es2 = "[(''a.csv'', Text ''corporation,x,exited\<newline>ab,1,0\<newline>ab,1,0\<newline>''),
               (''b.csv'', Text ''corporation,x,exited\<newline>ab,1,0\<newline>cd,2,1\<newline>'')]"
  have h1: "example_fs ''in'' = Some example_input"
    by (simp add: example_fs_def)
  have h2: "csv_only_fs ''in'' = Some ?es2"
    by (simp add: csv_only_fs_def)
  have h3: "csv_entries example_input = csv_entries ?es2"
    by (simp add: example_input_def endswith_def)
  have h4: "example_fs ''out'' = csv_only_fs ''out''"
    by (simp add: csv_only_fs_def)
  have h5: "''in'' \<noteq> ''out''"
    by simp
  from h3 merge_example merge_only_csv [OF h1 h2 h3 h4 h5, of mini_library] show ?thesis
    by blast
qed

section \<open>Properties of deployment\<close>

lemma path_exists_read: "path_exists fs d n \<longleftrightarrow> (\<exists>c. read_file fs d n = Inr c)"
  by (auto simp: path_exists_def read_file_def split: option.splits)

lemma read_file_makedirs: "read_file (makedirs fs d2) d n = read_file fs d n"
  by (auto simp: makedirs_def read_file_def split: option.splits)

lemma read_text_makedirs: "read_text L (makedirs fs d2) d n = read_text L fs d n"
  by (simp add: read_text_def read_file_makedirs)

lemma makedirs_Some: "\<exists>es. makedirs fs d = fs(d \<mapsto> es) \<and> makedirs fs d d = Some es"
  by (cases "fs d") (auto simp: makedirs_def)

lemma read_after_write:
  "read_file (fs(d2 \<mapsto> AList.update n2 c es)) d n
     = (if d = d2 \<and> n = n2 then Inr c else read_file (fs(d2 \<mapsto> es)) d n)"
  by (simp add: read_file_def update_conv')

lemma read_text_after_write:
  "n \<noteq> n2 \<Longrightarrow>
     read_text L (fs(d2 \<mapsto> AList.update n2 c es)) d n = read_text L (fs(d2 \<mapsto> es)) d n"
  by (simp add: read_text_def read_after_write)

lemma read_text_exists: "read_text L fs d n = Inr s \<Longrightarrow> path_exists fs d n"
  by (auto simp: read_text_def path_exists_read split: sum.splits)

lemma load_model_exists: "load_model L d fs = Inr m \<Longrightarrow> path_exists fs d ''trainedmodel.pkl''"
  by (auto simp: load_model_def path_exists_read split: sum.splits)

lemma deploy_model_missing:
  assumes "\<not> (path_exists fs out ''trainedmodel.pkl'' \<and> path_exists fs out ''latestscore.txt'' \<and>
             path_exists fs out ''ingestedfiles.txt'')"
  shows "\<exists>msg. deploy_model L out prd fs = Inl (FileNotFoundError msg, fs)"
  using assms by (auto simp: deploy_model_def)

lemma deploy_model_present:
  assumes m: "load_model L out fs = Inr m"
    and s: "read_text L fs out ''latestscore.txt'' = Inr s"
    and t: "read_text L fs out ''ingestedfiles.txt'' = Inr t"
  shows "\<exists>fs'. deploy_model L out prd fs = Inr ((), fs') \<and>
           read_file fs' prd ''trainedmodel.pkl'' = Inr (Binary (pickle_dump L m)) \<and>
           read_file fs' prd ''latestscore.txt'' = Inr (Text s) \<and>
           read_file fs' prd ''ingestedfiles.txt'' = Inr (Text t) \<and>
           (\<forall>d. d \<noteq> prd \<longrightarrow> fs' d = fs d)"
proof -
  have ex: "path_exists fs out ''trainedmodel.pkl''" "path_exists fs out ''latestscore.txt''"
    "path_exists fs out ''ingestedfiles.txt''"
    using m s t by (simp_all add: load_model_exists read_text_exists)
  obtain ps where fs0: "makedirs fs prd = fs(prd \<mapsto> ps)" and ps: "makedirs fs prd prd = Some ps"
    using makedirs_Some by blast
  let ?fs0 = "makedirs fs prd"
  let ?p1 = "AList.update ''trainedmodel.pkl'' (Binary (pickle_dump L m)) ps"
  let ?fs1 = "?fs0(prd \<mapsto> ?p1)"
  let ?p2 = "AList.update ''latestscore.txt'' (Text s) ?p1"
  let ?fs2 = "?fs1(prd \<mapsto> ?p2)"
  let ?p3 = "AList.update ''ingestedfiles.txt'' (Text t) ?p2"
  let ?fs3 = "?fs2(prd \<mapsto> ?p3)"
  have same: "?fs0(prd \<mapsto> ps) = ?fs0"
    using ps by (rule map_upd_triv)
  have l0: "load_model L out ?fs0 = Inr m"
    using m by (simp add: load_model_def read_file_makedirs)
  have w1: "write_file ?fs0 prd ''trainedmodel.pkl'' (Binary (pickle_dump L m)) = Inr ((), ?fs1)"
    using ps by (simp add: write_file_def)
  have r1: "read_text L ?fs1 out ''latestscore.txt'' = Inr s"
    using s by (simp add: read_text_after_write same read_text_makedirs)
  have w2: "write_file ?fs1 prd ''latestscore.txt'' (Text s) = Inr ((), ?fs2)"
    by (simp add: write_file_def)
  have r2: "read_text L ?fs2 out ''ingestedfiles.txt'' = Inr t"
    using t by (simp add: read_text_after_write same read_text_makedirs)
  have w3: "write_file ?fs2 prd ''ingestedfiles.txt'' (Text t) = Inr ((), ?fs3)"
    by (simp add: write_file_def)
  have run: "deploy_model L out prd fs = Inr ((), ?fs3)"
    using ex l0 w1 r1 w2 r2 w3 by (simp add: deploy_model_def Let_def)
  have files: "read_file ?fs3 prd ''trainedmodel.pkl'' = Inr (Binary (pickle_dump L m))"
    "read_file ?fs3 prd ''latestscore.txt'' = Inr (Text s)"
    "read_file ?fs3 prd ''ingestedfiles.txt'' = Inr (Text t)"
    by (simp_all add: read_file_def update_conv')
  have frame: "\<forall>d. d \<noteq> prd \<longrightarrow> ?fs3 d = fs d"
    by (simp add: fs0)
  from run files frame show ?thesis
    by blast
qed

text \<open>
  Claim C2, amended. When one of the three staged files is absent, \<open>deploy_model\<close> raises
  \<^verbatim>\<open>FileNotFoundError\<close> and the file system is as before: nothing is written. When the
  staged model can be unpickled and the two staged text files can be read as text, it returns,
  and the production directory holds the model pickled again, the score text and the manifest
  text.
\<close>

theorem deploy_model_copies:
  "(\<not> (path_exists fs out ''trainedmodel.pkl'' \<and> path_exists fs out ''latestscore.txt'' \<and>
        path_exists fs out ''ingestedfiles.txt'') \<longrightarrow>
      (\<exists>msg. deploy_model L out prd fs = Inl (FileNotFoundError msg, fs))) \<and>
   (load_model L out fs = Inr m \<and>
    read_text L fs out ''latestscore.txt'' = Inr s \<and>
    read_text L fs out ''ingestedfiles.txt'' = Inr t \<longrightarrow>
      (\<exists>fs'. deploy_model L out prd fs = Inr ((), fs') \<and>
         read_file fs' prd ''trainedmodel.pkl'' = Inr (Binary (pickle_dump L m)) \<and>
         read_file fs' prd ''latestscore.txt'' = Inr (Text s) \<and>
         read_file fs' prd ''ingestedfiles.txt'' = Inr (Text t)))"
proof (intro conjI impI)
  assume "\<not> (path_exists fs out ''trainedmodel.pkl'' \<and> path_exists fs out ''latestscore.txt'' \<and>
        path_exists fs out ''ingestedfiles.txt'')"
  then show "\<exists>msg. deploy_model L out prd fs = Inl (FileNotFoundError msg, fs)"
    by (rule deploy_model_missing)
next
  assume a: "load_model L out fs = Inr m \<and>
    read_text L fs out ''latestscore.txt'' = Inr s \<and>
    read_text L fs out ''ingestedfiles.txt'' = Inr t"
  then have "load_model L out fs = Inr m" "read_text L fs out ''latestscore.txt'' = Inr s"
    "read_text L fs out ''ingestedfiles.txt'' = Inr t"
    by simp_all
  from deploy_model_present [OF this, of prd]
  show "\<exists>fs'. deploy_model L out prd fs = Inr ((), fs') \<and>
         read_file fs' prd ''trainedmodel.pkl'' = Inr (Binary (pickle_dump L m)) \<and>
         read_file fs' prd ''latestscore.txt'' = Inr (Text s) \<and>
         read_file fs' prd ''ingestedfiles.txt'' = Inr (Text t)"
    by blast
qed

theorem deploy_model_copies_witness:
  "(\<exists>msg. deploy_model mini_library ''out'' ''prod'' example_fs
            = Inl (FileNotFoundError msg, example_fs)) \<and>
   (\<exists>fs'. deploy_model mini_library ''out'' ''prod'' staged_fs = Inr ((), fs') \<and>
      read_file fs' ''prod'' ''trainedmodel.pkl''
        = Inr (Binary (pickle_dump mini_library (Str ''0''))) \<and>
      read_file fs' ''prod'' ''latestscore.txt'' = Inr (Text ''1.0'') \<and>
      read_file fs' ''prod'' ''ingestedfiles.txt'' = Inr (Text ''a.csv\<newline>b.csv\<newline>''))"
proof -
  have a: "\<not> (path_exists example_fs ''out'' ''trainedmodel.pkl'' \<and>
              path_exists example_fs ''out'' ''latestscore.txt'' \<and>
              path_exists example_fs ''out'' ''ingestedfiles.txt'')"
    by (simp add: path_exists_def example_fs_def)
  have b: "load_model mini_library ''out'' staged_fs = Inr (Str ''0'') \<and>
           read_text mini_library staged_fs ''out'' ''latestscore.txt'' = Inr ''1.0'' \<and>
           read_text mini_library staged_fs ''out'' ''ingestedfiles.txt''
             = Inr ''a.csv\<newline>b.csv\<newline>''"
    by (simp add: load_model_def staged_fs_def mini_simps fs_simps)
  from deploy_model_copies
         [where fs = example_fs and out = "''out''" and L = mini_library and prd = "''prod''"] a
  have 1: "\<exists>msg. deploy_model mini_library ''out'' ''prod'' example_fs
            = Inl (FileNotFoundError msg, example_fs)"
    by blast
  from deploy_model_copies
         [where fs = staged_fs and out = "''out''" and L = mini_library and m = "Str ''0''"
            and s = "''1.0''" and t = "''a.csv\<newline>b.csv\<newline>''" and prd = "''prod''"] b
  have 2: "\<exists>fs'. deploy_model mini_library ''out'' ''prod'' staged_fs = Inr ((), fs') \<and>
      read_file fs' ''prod'' ''trainedmodel.pkl''
        = Inr (Binary (pickle_dump mini_library (Str ''0''))) \<and>
      read_file fs' ''prod'' ''latestscore.txt'' = Inr (Text ''1.0'') \<and>
      read_file fs' ''prod'' ''ingestedfiles.txt'' = Inr (Text ''a.csv\<newline>b.csv\<newline>'')"
    by blast
  from 1 2 show ?thesis
    by (intro conjI)
qed

text \<open>
  Claim C2 as it is worded fails where all three staged files are present and the model file
  is not a pickle: \<^verbatim>\<open>pickle.load\<close> raises and nothing reaches the production directory.
\<close>

theorem deploy_model_counterexample:
  "path_exists corrupt_fs ''out'' ''trainedmodel.pkl'' \<and>
   path_exists corrupt_fs ''out'' ''latestscore.txt'' \<and>
   path_exists corrupt_fs ''out'' ''ingestedfiles.txt'' \<and>
   deploy_model mini_library ''out'' ''prod'' corrupt_fs
     = Inl (LibraryError ''invalid load key'', corrupt_fs) \<and>
   corrupt_fs ''prod'' = Some []"
  by (simp add: deploy_model_def corrupt_fs_def example_fs_def load_model_def
        mini_simps fs_simps)

text \<open>
  The three checks guard against absent files only. When the staged score cannot be decoded,
  the exception comes after the model has been written to the production directory.
\<close>

lemma deploy_model_partial:
  "deploy_model mini_library ''out'' ''prod'' undecodable_fs
     = Inl (LibraryError ''invalid start byte'',
            undecodable_fs(''prod'' \<mapsto> [(''trainedmodel.pkl'', Binary ''P0'')]))"
  by (simp add: deploy_model_def undecodable_fs_def example_fs_def load_model_def
        mini_simps fs_simps)

section \<open>Properties of scoring\<close>

lemma ratio_range:
  fixes n d :: nat
  assumes "n \<le> d" and "0 < d"
  shows "0 \<le> (of_nat n :: rat) / of_nat d \<and> (of_nat n :: rat) / of_nat d \<le> 1"
  using assms by (simp add: divide_le_eq_1)

lemma label_f1_range: "0 \<le> label_f1 c pairs \<and> label_f1 c pairs \<le> 1"
proof -
  define n where "n = 2 * true_positives c pairs"
  define d where
    "d = 2 * true_positives c pairs + false_positives c pairs + false_negatives c pairs"
  have unfolded: "label_f1 c pairs = (if d = 0 then 0 else of_nat n / of_nat d)"
    by (simp only: label_f1_def Let_def n_def d_def)
  have le: "n \<le> d"
    by (simp add: n_def d_def)
  show ?thesis
  proof (cases "d = 0")
    case True
    with unfolded show ?thesis by simp
  next
    case False
    then have "0 < d" by simp
    with le have "0 \<le> (of_nat n :: rat) / of_nat d \<and> (of_nat n :: rat) / of_nat d \<le> 1"
      by (rule ratio_range)
    with unfolded False show ?thesis by simp
  qed
qed

lemma weighted_sum_bounds:
  "0 \<le> sum_list (map (\<lambda>c. label_f1 c pairs * of_nat (support c pairs)) labels) \<and>
   sum_list (map (\<lambda>c. label_f1 c pairs * of_nat (support c pairs)) labels)
     \<le> of_nat (sum_list (map (\<lambda>c. support c pairs) labels))"
proof (induction labels)
  case Nil
  show ?case by simp
next
  case (Cons c labels)
  have r: "0 \<le> label_f1 c pairs" "label_f1 c pairs \<le> 1"
    using label_f1_range [of c pairs] by simp_all
  have s: "(0::rat) \<le> of_nat (support c pairs)"
    by simp
  have lo: "0 \<le> label_f1 c pairs * of_nat (support c pairs)"
    using r(1) s by (rule mult_nonneg_nonneg)
  have hi: "label_f1 c pairs * of_nat (support c pairs) \<le> of_nat (support c pairs)"
    using s r(1) r(2) by (rule mult_left_le_one_le)
  from Cons.IH lo hi show ?case
    by simp
qed

lemma class_labels_no_NaN: "class_labels ys \<Longrightarrow> NaN \<notin> set ys"
  by (auto simp: class_labels_def list_all_iff)

lemma f1_score_weighted_range:
  assumes "f1_score_weighted y_true y_pred = Inr f1"
  shows "0 \<le> f1 \<and> f1 \<le> 1"
proof -
  define pairs where "pairs = zip y_true y_pred"
  define labels where "labels = remdups (y_true @ y_pred)"
  define total where "total = sum_list (map (\<lambda>c. support c pairs) labels)"
  define num where
    "num = sum_list (map (\<lambda>c. label_f1 c pairs * of_nat (support c pairs)) labels)"
  have unfolded: "f1_score_weighted y_true y_pred =
      (if length y_true \<noteq> length y_pred then
         Inl (ValueError ''Found input variables with inconsistent numbers of samples'')
       else if NaN \<in> set (y_true @ y_pred) then Inl (ValueError ''Input contains NaN'')
       else if \<not> class_labels (y_true @ y_pred) then
         Inl (ValueError ''Classification metrics cannot handle these targets'')
       else if total = 0 then Inr 0 else Inr (num / of_nat total))"
    by (simp only: f1_score_weighted_def Let_def pairs_def labels_def total_def num_def)
  show ?thesis
  proof (cases "total = 0")
    case True
    with assms unfolded have "f1 = 0"
      by (simp split: if_splits)
    then show ?thesis by simp
  next
    case False
    with assms unfolded have f1: "f1 = num / of_nat total"
      by (simp split: if_splits)
    from False have "0 < total"
      by simp
    then have pos: "(0::rat) < of_nat total"
      by (simp only: of_nat_0_less_iff)
    from weighted_sum_bounds [of pairs labels]
    have lo: "0 \<le> num" and hi: "num \<le> of_nat total"
      by (simp_all add: num_def total_def)
    have "0 \<le> num / of_nat total"
      using lo pos by simp
    moreover have "num / of_nat total \<le> 1"
      using hi pos by (simp add: divide_le_eq_1)
    ultimately show ?thesis
      using f1 by simp
  qed
qed

lemma f1_score_weighted_returns:
  assumes "length y_true = length y_pred" and "class_labels (y_true @ y_pred)"
  shows "\<exists>f1. f1_score_weighted y_true y_pred = Inr f1"
  using assms class_labels_no_NaN [of "y_true @ y_pred"]
  by (simp add: f1_score_weighted_def Let_def)

text \<open>
  Claim C7, amended. For every loaded model and every non-empty test set that has the columns
  \<^verbatim>\<open>corporation\<close> and \<^verbatim>\<open>exited\<close>, when the model predicts one class label for each row,
  of the kind of the outcome column, and the model directory exists, \<open>score_model\<close> returns
  the weighted F1 score of the predictions against the outcome column, the score lies between
  \<open>0\<close> and \<open>1\<close>, and \<^verbatim>\<open>latestscore.txt\<close> holds the string representation of the returned
  score.
\<close>

theorem score_model_weighted_f1:
  assumes x: "drop_columns [''corporation'', ''exited''] td = Inr x_test"
    and y: "get_column ''exited'' td = Inr y_test"
    and nonempty: "rows td \<noteq> []"
    and p: "predict L m x_test = Inr y_pred"
    and len: "length y_pred = length y_test"
    and labels: "class_labels (y_test @ y_pred)"
    and dir: "fs model_path = Some es"
  shows "\<exists>score fs'. score_model L model_path (Some m) (Some td) fs = Inr (score, fs') \<and>
           f1_score_weighted y_test y_pred = Inr score \<and>
           0 \<le> score \<and> score \<le> 1 \<and>
           read_file fs' model_path ''latestscore.txt'' = Inr (Text (float_str L score))"
proof -
  from len labels obtain score where f: "f1_score_weighted y_test y_pred = Inr score"
    using f1_score_weighted_returns [of y_test y_pred] by auto
  let ?fs' = "fs(model_path \<mapsto> AList.update ''latestscore.txt'' (Text (float_str L score)) es)"
  have run: "score_model L model_path (Some m) (Some td) fs = Inr (score, ?fs')"
    using x y p f dir by (simp add: score_model_def write_file_def)
  have range: "0 \<le> score \<and> score \<le> 1"
    using f by (rule f1_score_weighted_range)
  have persisted: "read_file ?fs' model_path ''latestscore.txt'' = Inr (Text (float_str L score))"
    by (simp add: read_file_def update_conv')
  from run f range persisted show ?thesis
    by blast
qed

theorem score_model_weighted_f1_witness:
  "rows example_test_frame \<noteq> [] \<and>
   class_labels ([Str ''0'', Str ''0''] @ [Str ''0'', Str ''0'']) \<and>
   (\<exists>score fs'. score_model mini_library ''out'' (Some (Str ''0'')) (Some example_test_frame)
                    example_fs = Inr (score, fs') \<and>
      f1_score_weighted [Str ''0'', Str ''0''] [Str ''0'', Str ''0''] = Inr score \<and>
      0 \<le> score \<and> score \<le> 1 \<and>
      read_file fs' ''out'' ''latestscore.txt'' = Inr (Text (float_str mini_library score)))"
proof -
  let ?x = "\<lparr>columns = [''x''], rows = [[Str ''1''], [Str ''2'']]\<rparr>"
  have h1: "drop_columns [''corporation'', ''exited''] example_test_frame = Inr ?x"
    by (simp add: drop_columns_def example_test_frame_def)
  have h2: "get_column ''exited'' example_test_frame = Inr [Str ''0'', Str ''0'']"
    by (simp add: get_column_def example_test_frame_def)
  have h3: "rows example_test_frame \<noteq> []"
    by (simp add: example_test_frame_def)
  have h4: "predict mini_library (Str ''0'') ?x = Inr [Str ''0'', Str ''0'']"
    by (simp add: mini_library_def)
  have h5: "length [Str ''0'', Str ''0''] = length [Str ''0'', Str ''0'']"
    by simp
  have h6: "class_labels ([Str ''0'', Str ''0''] @ [Str ''0'', Str ''0''])"
    by (simp add: class_labels_def)
  have h7: "example_fs ''out'' = Some []"
    by (simp add: example_fs_def)
  from h3 h6
    score_model_weighted_f1
      [where td = example_test_frame and x_test = ?x and y_test = "[Str ''0'', Str ''0'']"
         and L = mini_library and m = "Str ''0''" and y_pred = "[Str ''0'', Str ''0'']"
         and fs = example_fs and model_path = "''out''" and es = "[]",
       OF h1 h2 h3 h4 h5 h6 h7]
  show ?thesis
    by (intro conjI)
qed

text \<open>
  Claim C7 as it is worded fails on a non-empty test set with a binary outcome column and no
  \<^verbatim>\<open>corporation\<close> column: dropping the two columns raises \<^verbatim>\<open>KeyError\<close>, no score is
  returned and nothing is written.
\<close>

theorem score_model_counterexample:
  "get_column ''exited'' no_corporation_frame = Inr [Str ''0'', Str ''1''] \<and>
   rows no_corporation_frame \<noteq> [] \<and>
   score_model mini_library ''out'' (Some (Str ''0'')) (Some no_corporation_frame) example_fs
     = Inl (KeyError ''corporation not found in axis'', example_fs)"
  by (simp add: score_model_def no_corporation_frame_def get_column_def drop_columns_def)

text \<open>On the example the constant classifier is right on both rows of the test set.\<close>

lemma score_example:
  "score_model mini_library ''out'' (Some (Str ''0'')) (Some example_test_frame) example_fs
     = Inr (1, example_fs(''out'' \<mapsto> [(''latestscore.txt'', Text ''1.0'')]))"
  by (simp add: score_model_def example_test_frame_def drop_columns_def get_column_def
        f1_score_weighted_def class_labels_def label_f1_def true_positives_def
        false_positives_def false_negatives_def support_def count_where_def Let_def
        mini_simps fs_simps example_fs_def)

section \<open>Properties of the automation driver\<close>

lemma copy_forward_frame: "d \<noteq> dest \<Longrightarrow> copy_forward base dest files fs d = fs d"
proof (induction files arbitrary: fs)
  case Nil
  show ?case by simp
next
  case (Cons f files)
  have "cp fs base f dest d = fs d"
    using Cons.prems by (auto simp: cp_def write_file_def split: sum.splits option.splits)
  with Cons show ?case by simp
qed

lemma merge_frame:
  assumes "merge_multiple_dataframe L inp out fs = Inr (u, fs')" and "d \<noteq> out"
  shows "fs' d = fs d"
  using assms
  by (auto simp: merge_multiple_dataframe_def write_file_def
        split: sum.splits option.splits if_splits)

lemma train_frame:
  assumes "train L out out fs = Inr (u, fs')" and "d \<noteq> out"
  shows "fs' d = fs d"
  using assms
  by (auto simp: train_def write_file_def split: sum.splits option.splits)

lemma retrain_frame:
  assumes "retrain L cfg fs = Inr (u, fs')" and "d \<noteq> output_folder_path cfg"
  shows "fs' d = fs d"
proof -
  from assms(1) obtain u1 fs1 where
    m: "merge_multiple_dataframe L (input_folder_path cfg) (output_folder_path cfg) fs
          = Inr (u1, fs1)"
    and t: "train L (output_folder_path cfg) (output_folder_path cfg) fs1 = Inr (u, fs')"
    by (auto simp: retrain_def split: sum.splits)
  from train_frame [OF t assms(2)] merge_frame [OF m assms(2)] show ?thesis
    by simp
qed

lemma score_model_written:
  assumes "score_model L out mo tdo fs = Inr (v, fs')"
  shows "\<exists>es. fs out = Some es \<and>
           fs' = fs(out \<mapsto> AList.update ''latestscore.txt'' (Text (float_str L v)) es)"
  using assms
  by (auto simp: score_model_def write_file_def split: sum.splits option.splits)

lemma new_model_score_written:
  assumes "new_model_score L cfg fs = Inr (v, fs')"
  shows "\<exists>m es. load_model L (output_folder_path cfg) fs = Inr m \<and>
           fs (output_folder_path cfg) = Some es \<and>
           fs' = fs(output_folder_path cfg \<mapsto>
                   AList.update ''latestscore.txt'' (Text (float_str L v)) es)"
proof -
  from assms obtain m td where
    m: "load_model L (output_folder_path cfg) fs = Inr m"
    and s: "score_model L (output_folder_path cfg) (Some m) (Some td) fs = Inr (v, fs')"
    by (auto simp: new_model_score_def split: sum.splits)
  from score_model_written [OF s] m show ?thesis
    by blast
qed

lemma new_model_score_frame:
  assumes "new_model_score L cfg fs = Inr (v, fs')" and "d \<noteq> output_folder_path cfg"
  shows "fs' d = fs d"
  using new_model_score_written [OF assms(1)] assms(2) by auto

lemma merge_manifest:
  assumes "merge_multiple_dataframe L inp out fs = Inr (u, fs')"
  shows "\<exists>t. read_file fs' out ''ingestedfiles.txt'' = Inr (Text t)"
  using assms
  by (auto simp: merge_multiple_dataframe_def write_file_def read_file_def update_conv'
        split: sum.splits option.splits if_splits)

lemma train_written:
  assumes "train L out out fs = Inr (u, fs')"
  shows "\<exists>c es. fs out = Some es \<and> fs' = fs(out \<mapsto> AList.update ''trainedmodel.pkl'' c es)"
  using assms
  by (auto simp: train_def write_file_def split: sum.splits option.splits)

lemma train_keeps:
  assumes "train L out out fs = Inr (u, fs')" and "n \<noteq> ''trainedmodel.pkl''"
  shows "read_file fs' d n = read_file fs d n"
proof -
  from train_written [OF assms(1)] obtain c es where
    "fs out = Some es" and "fs' = fs(out \<mapsto> AList.update ''trainedmodel.pkl'' c es)"
    by blast
  with assms(2) show ?thesis
    by (simp add: read_file_write_other)
qed

lemma retrain_manifest:
  assumes "retrain L cfg fs = Inr (u, fs')"
  shows "\<exists>t. read_file fs' (output_folder_path cfg) ''ingestedfiles.txt'' = Inr (Text t)"
proof -
  from assms obtain u1 fs1 where
    m: "merge_multiple_dataframe L (input_folder_path cfg) (output_folder_path cfg) fs
          = Inr (u1, fs1)"
    and t: "train L (output_folder_path cfg) (output_folder_path cfg) fs1 = Inr (u, fs')"
    by (auto simp: retrain_def split: sum.splits)
  from merge_manifest [OF m] train_keeps [OF t] show ?thesis
    by simp
qed


lemma read_text_Text: "read_file fs d n = Inr (Text t) \<Longrightarrow> read_text L fs d n = Inr (universal_newlines t)"
  by (simp add: read_text_def decode_content_def)

lemma deploy_after_scoring:
  assumes t: "read_file fs3 (output_folder_path cfg) ''ingestedfiles.txt'' = Inr (Text t)"
    and new: "new_model_score L cfg fs3 = Inr (v, fs4)"
  shows "\<exists>m fs5. load_model L (output_folder_path cfg) fs3 = Inr m \<and>
           deploy_model L (output_folder_path cfg) prd fs4 = Inr ((), fs5) \<and>
           read_file fs5 prd ''trainedmodel.pkl'' = Inr (Binary (pickle_dump L m)) \<and>
           read_file fs5 prd ''latestscore.txt''
             = Inr (Text (universal_newlines (float_str L v))) \<and>
           read_file fs5 prd ''ingestedfiles.txt'' = Inr (Text (universal_newlines t))"
proof -
  let ?out = "output_folder_path cfg"
  from new_model_score_written [OF new] obtain m es where
    m: "load_model L ?out fs3 = Inr m" and es: "fs3 ?out = Some es"
    and fs4: "fs4 = fs3(?out \<mapsto> AList.update ''latestscore.txt'' (Text (float_str L v)) es)"
    by blast
  have m4: "load_model L ?out fs4 = Inr m"
    using m es by (simp add: load_model_def fs4 read_file_write_other)
  have s4: "read_text L fs4 ?out ''latestscore.txt'' = Inr (universal_newlines (float_str L v))"
    by (rule read_text_Text) (simp add: fs4 read_file_write_same)
  have t4: "read_text L fs4 ?out ''ingestedfiles.txt'' = Inr (universal_newlines t)"
    using t es by (intro read_text_Text) (simp add: fs4 read_file_write_other)
  from deploy_model_present [OF m4 s4 t4, of prd] m show ?thesis
    by blast
qed

lemma fullprocess_reaches_drift_check:
  assumes manifest: "ingested_files_list L cfg fs = Inr ingested"
    and source: "listdir fs (input_folder_path cfg) = Inr source_files"
    and new_files: "filter (\<lambda>file. file \<notin> set ingested) source_files \<noteq> []"
    and retrained: "retrain L cfg (copy_forward (base_data_path cfg) (input_folder_path cfg)
                      ingested fs) = Inr (u, fs3)"
  shows "fullprocess L cfg fs = drift_check L cfg fs3"
  using assms by (simp add: fullprocess_def Let_def)

lemma py_ne_Finite: "py_ne (Finite a) (Finite b) \<longleftrightarrow> a \<noteq> b"
  by (simp add: py_ne_def)

lemma py_ne_unequal: "py_ne (Finite a) base \<longleftrightarrow> base \<noteq> Finite a"
  by (auto simp: py_ne_def)

text \<open>
  The driver reads back what ingestion writes: from a manifest written for file names that
  hold no line break it gets the names that end in \<^verbatim>\<open>.csv\<close>, in order.
\<close>

lemma universal_newlines_id: "CHR 0x0D \<notin> set s \<Longrightarrow> universal_newlines s = s"
  by (induction s) auto

lemma splitlines_from_line:
  "\<forall>c\<in>set n. \<not> is_linebreak c \<Longrightarrow>
     splitlines_from cur (n @ CHR 0x0A # rest) = (cur @ n) # splitlines_from [] rest"
proof (induction n arbitrary: cur)
  case Nil
  show ?case
    by (cases rest) (simp_all add: is_linebreak_def)
next
  case (Cons c n)
  then have "splitlines_from cur ((c # n) @ CHR 0x0A # rest)
               = splitlines_from (cur @ [c]) (n @ CHR 0x0A # rest)"
    by simp
  also have "\<dots> = ((cur @ [c]) @ n) # splitlines_from [] rest"
    using Cons by simp
  finally show ?case by simp
qed

lemma splitlines_manifest:
  "\<forall>n\<in>set names. \<forall>c\<in>set n. \<not> is_linebreak c \<Longrightarrow>
     splitlines (concat (map (\<lambda>n. n @ [CHR 0x0A]) names)) = names"
proof (induction names)
  case Nil
  show ?case by (simp add: splitlines_def)
next
  case (Cons n names)
  then have "splitlines_from [] (n @ CHR 0x0A # concat (map (\<lambda>n. n @ [CHR 0x0A]) names))
               = ([] @ n) # splitlines_from [] (concat (map (\<lambda>n. n @ [CHR 0x0A]) names))"
    by (intro splitlines_from_line) simp
  with Cons show ?case
    by (simp add: splitlines_def)
qed

lemma ingested_files_list_written:
  assumes manifest: "read_file fs (prod_deployment_path cfg) ''ingestedfiles.txt''
                   = Inr (Text (manifest_lines files))"
    and names: "\<forall>f\<in>set files. \<forall>c\<in>set f. \<not> is_linebreak c"
  shows "ingested_files_list L cfg fs = Inr (filter is_csv files)"
proof -
  let ?names = "filter is_csv files"
  let ?text = "concat (map (\<lambda>f. f @ [CHR 0x0A]) ?names)"
  have written: "manifest_lines files = ?text"
    by (rule manifest_lines_concat)
  have "CHR 0x0D \<notin> set ?text"
    using names by (auto simp: is_linebreak_def)
  then have plain: "universal_newlines ?text = ?text"
    by (rule universal_newlines_id)
  have lines: "splitlines ?text = ?names"
    using names by (intro splitlines_manifest) auto
  have ex: "path_exists fs (prod_deployment_path cfg) ''ingestedfiles.txt''"
    using manifest by (auto simp: path_exists_read)
  have "read_text L fs (prod_deployment_path cfg) ''ingestedfiles.txt'' = Inr ?text"
    using manifest written plain by (simp add: read_text_Text)
  with ex lines show ?thesis
    by (simp add: ingested_files_list_def)
qed

text \<open>
  Claim C5. When the source directory exists, the manifest of the production deployment can be
  read (or there is none, which counts as an empty manifest) and every file name of the source
  directory is a line of the manifest, the driver exits at once: nothing is ingested, trained,
  scored or deployed, and the file system is as before.
\<close>

theorem fullprocess_no_new_data:
  assumes manifest: "ingested_files_list L cfg fs = Inr ingested"
    and inp: "fs (input_folder_path cfg) = Some es"
    and sub: "set (map fst es) \<subseteq> set ingested"
  shows "fullprocess L cfg fs = Inr (NoNewData, fs)"
proof -
  have "filter (\<lambda>file. file \<notin> set ingested) (map fst es) = []"
    using sub by (auto simp: filter_empty_conv)
  with manifest inp show ?thesis
    by (simp add: fullprocess_def listdir_def Let_def)
qed

text \<open>
  Claim C1. Let the driver find new files and let re-training and re-scoring return, with the
  persisted production score \<open>base\<close> and the new score \<open>v\<close>. When the two are unequal
  (a persisted score that is not a number is unequal to every new score),
  \<open>deploy_model\<close> runs and returns, and the production directory holds the model of the
  output folder pickled again, the text of the new score and the manifest of the output
  folder. When they are equal the driver exits in the state that scoring left; the
  production directory is then what it was when the driver started, provided it is neither
  the source nor the output directory.
\<close>

theorem fullprocess_drift:
  assumes manifest: "ingested_files_list L cfg fs = Inr ingested"
    and source: "listdir fs (input_folder_path cfg) = Inr source_files"
    and new_files: "filter (\<lambda>file. file \<notin> set ingested) source_files \<noteq> []"
    and retrained: "retrain L cfg (copy_forward (base_data_path cfg) (input_folder_path cfg)
                      ingested fs) = Inr (u, fs3)"
    and base: "base_model_score L cfg fs3 = Inr base"
    and scored: "new_model_score L cfg fs3 = Inr (v, fs4)"
  shows "(base \<noteq> Finite v \<longrightarrow>
           (\<exists>m t fs5. fullprocess L cfg fs = Inr (Deployed, fs5) \<and>
              load_model L (output_folder_path cfg) fs3 = Inr m \<and>
              read_file fs3 (output_folder_path cfg) ''ingestedfiles.txt'' = Inr (Text t) \<and>
              read_file fs5 (prod_deployment_path cfg) ''trainedmodel.pkl''
                = Inr (Binary (pickle_dump L m)) \<and>
              read_file fs5 (prod_deployment_path cfg) ''latestscore.txt''
                = Inr (Text (universal_newlines (float_str L v))) \<and>
              read_file fs5 (prod_deployment_path cfg) ''ingestedfiles.txt''
                = Inr (Text (universal_newlines t)))) \<and>
         (base = Finite v \<longrightarrow>
            fullprocess L cfg fs = Inr (NoDrift, fs4) \<and>
            (prod_deployment_path cfg \<noteq> input_folder_path cfg \<and>
             prod_deployment_path cfg \<noteq> output_folder_path cfg \<longrightarrow>
               fs4 (prod_deployment_path cfg) = fs (prod_deployment_path cfg)))"
proof (intro conjI impI)
  have reach: "fullprocess L cfg fs = drift_check L cfg fs3"
    using manifest source new_files retrained by (rule fullprocess_reaches_drift_check)
  {
    assume "base \<noteq> Finite v"
    then have ne: "py_ne (Finite v) base"
      by (simp add: py_ne_unequal)
    from retrain_manifest [OF retrained] obtain t where
      t: "read_file fs3 (output_folder_path cfg) ''ingestedfiles.txt'' = Inr (Text t)"
      by blast
    from deploy_after_scoring [OF t scored, of "prod_deployment_path cfg"]
    obtain m fs5 where
      d: "load_model L (output_folder_path cfg) fs3 = Inr m"
         "deploy_model L (output_folder_path cfg) (prod_deployment_path cfg) fs4 = Inr ((), fs5)"
         "read_file fs5 (prod_deployment_path cfg) ''trainedmodel.pkl''
            = Inr (Binary (pickle_dump L m))"
         "read_file fs5 (prod_deployment_path cfg) ''latestscore.txt''
            = Inr (Text (universal_newlines (float_str L v)))"
         "read_file fs5 (prod_deployment_path cfg) ''ingestedfiles.txt''
            = Inr (Text (universal_newlines t))"
      by blast
    have "fullprocess L cfg fs = Inr (Deployed, fs5)"
      using reach base scored ne d(2) by (simp add: drift_check_def)
    with d t show "\<exists>m t fs5. fullprocess L cfg fs = Inr (Deployed, fs5) \<and>
              load_model L (output_folder_path cfg) fs3 = Inr m \<and>
              read_file fs3 (output_folder_path cfg) ''ingestedfiles.txt'' = Inr (Text t) \<and>
              read_file fs5 (prod_deployment_path cfg) ''trainedmodel.pkl''
                = Inr (Binary (pickle_dump L m)) \<and>
              read_file fs5 (prod_deployment_path cfg) ''latestscore.txt''
                = Inr (Text (universal_newlines (float_str L v))) \<and>
              read_file fs5 (prod_deployment_path cfg) ''ingestedfiles.txt''
                = Inr (Text (universal_newlines t))"
      by blast
  }
  {
    assume "base = Finite v"
    then have eq: "\<not> py_ne (Finite v) base"
      by (simp add: py_ne_unequal)
    show "fullprocess L cfg fs = Inr (NoDrift, fs4)"
      using reach base scored eq by (simp add: drift_check_def)
  }
  {
    assume d: "prod_deployment_path cfg \<noteq> input_folder_path cfg \<and>
               prod_deployment_path cfg \<noteq> output_folder_path cfg"
    have "fs4 (prod_deployment_path cfg) = fs3 (prod_deployment_path cfg)"
      using new_model_score_frame [OF scored] d by simp
    also have "\<dots> = copy_forward (base_data_path cfg) (input_folder_path cfg) ingested fs
                        (prod_deployment_path cfg)"
      using retrain_frame [OF retrained] d by simp
    also have "\<dots> = fs (prod_deployment_path cfg)"
      using d by (simp add: copy_forward_frame)
    finally show "fs4 (prod_deployment_path cfg) = fs (prod_deployment_path cfg)" .
  }
qed

text \<open>
  Claim C9. Let the driver find new files and let re-training and re-scoring return, with no
  \<^verbatim>\<open>latestscore.txt\<close> in the production directory when the drift check starts. Then the
  base score is \<open>0.0\<close>; a new score other than \<open>0\<close> makes \<open>deploy_model\<close> run, which returns
  and writes the new score to the production directory; a new score equal to \<open>0\<close> makes the
  driver exit in the state that scoring left, without deploying.
\<close>

theorem fullprocess_without_base_score:
  assumes manifest: "ingested_files_list L cfg fs = Inr ingested"
    and source: "listdir fs (input_folder_path cfg) = Inr source_files"
    and new_files: "filter (\<lambda>file. file \<notin> set ingested) source_files \<noteq> []"
    and retrained: "retrain L cfg (copy_forward (base_data_path cfg) (input_folder_path cfg)
                      ingested fs) = Inr (u, fs3)"
    and absent: "\<not> path_exists fs3 (prod_deployment_path cfg) ''latestscore.txt''"
    and scored: "new_model_score L cfg fs3 = Inr (v, fs4)"
  shows "base_model_score L cfg fs3 = Inr (Finite 0) \<and>
         (v \<noteq> 0 \<longrightarrow>
            (\<exists>fs5. deploy_model L (output_folder_path cfg) (prod_deployment_path cfg) fs4
                     = Inr ((), fs5) \<and>
               fullprocess L cfg fs = Inr (Deployed, fs5) \<and>
               read_file fs5 (prod_deployment_path cfg) ''latestscore.txt''
                 = Inr (Text (universal_newlines (float_str L v))))) \<and>
         (v = 0 \<longrightarrow> fullprocess L cfg fs = Inr (NoDrift, fs4))"
proof (intro conjI impI)
  have reach: "fullprocess L cfg fs = drift_check L cfg fs3"
    using manifest source new_files retrained by (rule fullprocess_reaches_drift_check)
  show base: "base_model_score L cfg fs3 = Inr (Finite 0)"
    using absent by (simp add: base_model_score_def)
  {
    assume nz: "v \<noteq> 0"
    from retrain_manifest [OF retrained] obtain t where
      t: "read_file fs3 (output_folder_path cfg) ''ingestedfiles.txt'' = Inr (Text t)"
      by blast
    from deploy_after_scoring [OF t scored, of "prod_deployment_path cfg"]
    obtain fs5 where
      d: "deploy_model L (output_folder_path cfg) (prod_deployment_path cfg) fs4 = Inr ((), fs5)"
         "read_file fs5 (prod_deployment_path cfg) ''latestscore.txt''
            = Inr (Text (universal_newlines (float_str L v)))"
      by blast
    have "fullprocess L cfg fs = Inr (Deployed, fs5)"
      using reach base scored nz d(1) by (simp add: drift_check_def py_ne_Finite)
    with d show "\<exists>fs5. deploy_model L (output_folder_path cfg) (prod_deployment_path cfg) fs4
                     = Inr ((), fs5) \<and>
               fullprocess L cfg fs = Inr (Deployed, fs5) \<and>
               read_file fs5 (prod_deployment_path cfg) ''latestscore.txt''
                 = Inr (Text (universal_newlines (float_str L v)))"
      by blast
  }
  {
    assume z: "v = 0"
    show "fullprocess L cfg fs = Inr (NoDrift, fs4)"
      using reach base scored z by (simp add: drift_check_def py_ne_Finite)
  }
qed

text \<open>The driver on the example file systems.\<close>

lemmas example_simps = example_config_def example_fs_def example_input_def trained_out_def
  staged_out_def

lemmas pipeline_simps = merge_multiple_dataframe_def train_def retrain_def load_model_def
  load_test_data_def score_model_def new_model_score_def drop_columns_def get_column_def
  drop_duplicates_def pd_concat_def union_columns_def reindex_row_def duplicated_def
  unmarked_def f1_score_weighted_def class_labels_def label_f1_def true_positives_def
  false_positives_def false_negatives_def support_def count_where_def Let_def

lemma manifest_settled:
  "ingested_files_list mini_library example_config settled_fs = Inr [''a.csv'', ''b.csv'']"
  by (simp add: ingested_files_list_def example_config_def settled_fs_def fs_simps
        splitlines_def is_linebreak_def)

theorem fullprocess_no_new_data_witness:
  "set (map fst [(''a.csv'', Text ''corporation,x,exited\<newline>ab,1,0\<newline>ab,1,0\<newline>''),
                 (''b.csv'', Text ''corporation,x,exited\<newline>ab,1,0\<newline>cd,2,1\<newline>'')])
     \<subseteq> set [''a.csv'', ''b.csv''] \<and>
   fullprocess mini_library example_config settled_fs = Inr (NoNewData, settled_fs)"
proof -
  let ?es = "[(''a.csv'', Text ''corporation,x,exited\<newline>ab,1,0\<newline>ab,1,0\<newline>''),
              (''b.csv'', Text ''corporation,x,exited\<newline>ab,1,0\<newline>cd,2,1\<newline>'')]"
  have h1: "settled_fs (input_folder_path example_config) = Some ?es"
    by (simp add: settled_fs_def example_config_def)
  have h2: "set (map fst ?es) \<subseteq> set [''a.csv'', ''b.csv'']"
    by simp
  from h2 fullprocess_no_new_data [OF manifest_settled h1 h2] show ?thesis
    by (intro conjI)
qed

lemma retrain_example:
  "retrain mini_library example_config example_fs = Inr ((), example_fs(''out'' \<mapsto> trained_out))"
  by (simp add: pipeline_simps example_simps mini_simps fs_simps)

lemma rescore_example:
  "new_model_score mini_library example_config (example_fs(''out'' \<mapsto> trained_out))
     = Inr (1, example_fs(''out'' \<mapsto> staged_out ''1.0''))"
  by (simp add: pipeline_simps example_simps mini_simps fs_simps)


lemma retrain_scored_prod:
  "retrain mini_library example_config scored_prod_fs
     = Inr ((), scored_prod_fs(''out'' \<mapsto> trained_out))"
  by (simp add: pipeline_simps example_simps scored_prod_fs_def mini_simps fs_simps)

lemma rescore_scored_prod:
  "new_model_score mini_library example_config (scored_prod_fs(''out'' \<mapsto> trained_out))
     = Inr (1, scored_prod_fs(''out'' \<mapsto> staged_out ''1.0''))"
  by (simp add: pipeline_simps example_simps scored_prod_fs_def mini_simps fs_simps)

lemma no_manifest_example:
  "ingested_files_list mini_library example_config example_fs = Inr []"
  "ingested_files_list mini_library example_config scored_prod_fs = Inr []"
  "ingested_files_list mini_library example_config zero_test_fs = Inr []"
  by (simp_all add: ingested_files_list_def path_exists_def example_simps scored_prod_fs_def
        zero_test_fs_def)

lemma source_example:
  "listdir example_fs (input_folder_path example_config) = Inr [''a.csv'', ''notes.txt'', ''b.csv'']"
  "listdir scored_prod_fs (input_folder_path example_config)
     = Inr [''a.csv'', ''notes.txt'', ''b.csv'']"
  "listdir zero_test_fs (input_folder_path example_config)
     = Inr [''a.csv'', ''notes.txt'', ''b.csv'']"
  by (simp_all add: listdir_def example_simps scored_prod_fs_def zero_test_fs_def)

theorem fullprocess_drift_witness:
  "(\<exists>m t fs5. fullprocess mini_library example_config example_fs = Inr (Deployed, fs5) \<and>
      load_model mini_library ''out'' (example_fs(''out'' \<mapsto> trained_out)) = Inr m \<and>
      read_file (example_fs(''out'' \<mapsto> trained_out)) ''out'' ''ingestedfiles.txt''
        = Inr (Text t) \<and>
      read_file fs5 ''prod'' ''trainedmodel.pkl'' = Inr (Binary (pickle_dump mini_library m)) \<and>
      read_file fs5 ''prod'' ''latestscore.txt''
        = Inr (Text (universal_newlines (float_str mini_library 1))) \<and>
      read_file fs5 ''prod'' ''ingestedfiles.txt'' = Inr (Text (universal_newlines t))) \<and>
   fullprocess mini_library example_config scored_prod_fs
     = Inr (NoDrift, scored_prod_fs(''out'' \<mapsto> staged_out ''1.0'')) \<and>
   (scored_prod_fs(''out'' \<mapsto> staged_out ''1.0'')) ''prod'' = scored_prod_fs ''prod''"
proof -
  have new: "filter (\<lambda>file. file \<notin> set []) [''a.csv'', ''notes.txt'', ''b.csv''] \<noteq> []"
    by simp
  have a4: "retrain mini_library example_config
              (copy_forward (base_data_path example_config) (input_folder_path example_config)
                 [] example_fs) = Inr ((), example_fs(''out'' \<mapsto> trained_out))"
    by (simp add: retrain_example)
  have a5: "base_model_score mini_library example_config (example_fs(''out'' \<mapsto> trained_out))
              = Inr (Finite 0)"
    by (simp add: base_model_score_def path_exists_def example_simps)
  have a6: "new_model_score mini_library example_config (example_fs(''out'' \<mapsto> trained_out))
              = Inr (1, example_fs(''out'' \<mapsto> staged_out ''1.0''))"
    by (rule rescore_example)
  have b4: "retrain mini_library example_config
              (copy_forward (base_data_path example_config) (input_folder_path example_config)
                 [] scored_prod_fs) = Inr ((), scored_prod_fs(''out'' \<mapsto> trained_out))"
    by (simp add: retrain_scored_prod)
  have b5: "base_model_score mini_library example_config
              (scored_prod_fs(''out'' \<mapsto> trained_out)) = Inr (Finite 1)"
    by (simp add: base_model_score_def path_exists_def example_simps scored_prod_fs_def
          mini_simps fs_simps strip_def is_space_def)
  have ne: "Finite 0 \<noteq> Finite (1::rat)" and eq: "Finite 1 = Finite (1::rat)"
    by simp_all
  have dirs: "prod_deployment_path example_config \<noteq> input_folder_path example_config \<and>
              prod_deployment_path example_config \<noteq> output_folder_path example_config"
    by (simp add: example_config_def)
  from fullprocess_drift [OF no_manifest_example(1) source_example(1) new a4 a5 a6] ne
  have A: "\<exists>m t fs5. fullprocess mini_library example_config example_fs = Inr (Deployed, fs5) \<and>
      load_model mini_library (output_folder_path example_config)
        (example_fs(''out'' \<mapsto> trained_out)) = Inr m \<and>
      read_file (example_fs(''out'' \<mapsto> trained_out)) (output_folder_path example_config)
        ''ingestedfiles.txt'' = Inr (Text t) \<and>
      read_file fs5 (prod_deployment_path example_config) ''trainedmodel.pkl''
        = Inr (Binary (pickle_dump mini_library m)) \<and>
      read_file fs5 (prod_deployment_path example_config) ''latestscore.txt''
        = Inr (Text (universal_newlines (float_str mini_library 1))) \<and>
      read_file fs5 (prod_deployment_path example_config) ''ingestedfiles.txt''
        = Inr (Text (universal_newlines t))"
    by blast
  from fullprocess_drift
         [OF no_manifest_example(2) source_example(2) new b4 b5 rescore_scored_prod] eq dirs
  have B: "fullprocess mini_library example_config scored_prod_fs
             = Inr (NoDrift, scored_prod_fs(''out'' \<mapsto> staged_out ''1.0'')) \<and>
           (scored_prod_fs(''out'' \<mapsto> staged_out ''1.0'')) (prod_deployment_path example_config)
             = scored_prod_fs (prod_deployment_path example_config)"
    by blast
  have out: "output_folder_path example_config = ''out''"
    and prd: "prod_deployment_path example_config = ''prod''"
    by (simp_all add: example_config_def)
  from A B show ?thesis
    unfolding out prd by (intro conjI) simp_all
qed


lemma retrain_zero_test:
  "retrain mini_library example_config zero_test_fs
     = Inr ((), zero_test_fs(''out'' \<mapsto> trained_out))"
  by (simp add: pipeline_simps example_simps zero_test_fs_def mini_simps fs_simps)

lemma rescore_zero_test:
  "new_model_score mini_library example_config (zero_test_fs(''out'' \<mapsto> trained_out))
     = Inr (0, zero_test_fs(''out'' \<mapsto> staged_out ''0.0''))"
  by (simp add: pipeline_simps example_simps zero_test_fs_def mini_simps fs_simps)

theorem fullprocess_without_base_score_witness:
  "base_model_score mini_library example_config (example_fs(''out'' \<mapsto> trained_out))
     = Inr (Finite 0) \<and>
   (\<exists>fs5. deploy_model mini_library ''out'' ''prod'' (example_fs(''out'' \<mapsto> staged_out ''1.0''))
            = Inr ((), fs5) \<and>
      fullprocess mini_library example_config example_fs = Inr (Deployed, fs5) \<and>
      read_file fs5 ''prod'' ''latestscore.txt''
        = Inr (Text (universal_newlines (float_str mini_library 1)))) \<and>
   fullprocess mini_library example_config zero_test_fs
     = Inr (NoDrift, zero_test_fs(''out'' \<mapsto> staged_out ''0.0''))"
proof -
  have new: "filter (\<lambda>file. file \<notin> set []) [''a.csv'', ''notes.txt'', ''b.csv''] \<noteq> []"
    by simp
  have a4: "retrain mini_library example_config
              (copy_forward (base_data_path example_config) (input_folder_path example_config)
                 [] example_fs) = Inr ((), example_fs(''out'' \<mapsto> trained_out))"
    by (simp add: retrain_example)
  have a5: "\<not> path_exists (example_fs(''out'' \<mapsto> trained_out))
                (prod_deployment_path example_config) ''latestscore.txt''"
    by (simp add: path_exists_def example_simps)
  have b4: "retrain mini_library example_config
              (copy_forward (base_data_path example_config) (input_folder_path example_config)
                 [] zero_test_fs) = Inr ((), zero_test_fs(''out'' \<mapsto> trained_out))"
    by (simp add: retrain_zero_test)
  have b5: "\<not> path_exists (zero_test_fs(''out'' \<mapsto> trained_out))
                (prod_deployment_path example_config) ''latestscore.txt''"
    by (simp add: path_exists_def example_simps zero_test_fs_def)
  have nz: "(1::rat) \<noteq> 0"
    by simp
  from fullprocess_without_base_score
         [OF no_manifest_example(1) source_example(1) new a4 a5 rescore_example] nz
  have A: "base_model_score mini_library example_config (example_fs(''out'' \<mapsto> trained_out))
             = Inr (Finite 0) \<and>
           (\<exists>fs5. deploy_model mini_library (output_folder_path example_config)
                    (prod_deployment_path example_config)
                    (example_fs(''out'' \<mapsto> staged_out ''1.0'')) = Inr ((), fs5) \<and>
              fullprocess mini_library example_config example_fs = Inr (Deployed, fs5) \<and>
              read_file fs5 (prod_deployment_path example_config) ''latestscore.txt''
                = Inr (Text (universal_newlines (float_str mini_library 1))))"
    by blast
  from fullprocess_without_base_score
         [OF no_manifest_example(3) source_example(3) new b4 b5 rescore_zero_test]
  have B: "fullprocess mini_library example_config zero_test_fs
             = Inr (NoDrift, zero_test_fs(''out'' \<mapsto> staged_out ''0.0''))"
    by blast
  have out: "output_folder_path example_config = ''out''"
    and prd: "prod_deployment_path example_config = ''prod''"
    by (simp_all add: example_config_def)
  from A B show ?thesis
    unfolding out prd by (intro conjI) simp_all
qed

section \<open>Properties of the HTTP endpoints\<close>

text \<open>
  The view function \<open>first_run\<close> wraps its stages in \<^verbatim>\<open>try\<close> and \<^verbatim>\<open>except Exception\<close>: it
  always answers, with status \<open>500\<close> and the text of the exception when a stage raises.
\<close>

lemma first_run_catches:
  "(first_run_stages L cfg fs = Inl (e, fs') \<longrightarrow>
      first_run L cfg fs = Inr ((ErrorBody (str_error e), 500), fs')) \<and>
   (first_run_stages L cfg fs = Inr (u, fs') \<longrightarrow>
      first_run L cfg fs = Inr ((MessageBody ''First run completed successfully'', 200), fs'))"
  by (simp add: first_run_def)

lemma first_run_responds: "\<exists>response fs'. first_run L cfg fs = Inr (response, fs')"
  by (cases "first_run_stages L cfg fs") (auto simp: first_run_def)

text \<open>The view function \<open>scoring_stats\<close> has no handler: what its stage raises, it raises.\<close>

lemma scoring_stats_propagates:
  assumes "load_model L (prod_deployment_path cfg) fs = Inl e"
  shows "scoring_stats L cfg fs = Inl (e, fs)"
  using assms by (simp add: scoring_stats_def)

text \<open>
  Claim C6 says that every endpoint turns an exception of its stage into a response with
  status \<open>500\<close> and the text of the exception. With no model in the production directory the
  scoring endpoint raises \<^verbatim>\<open>FileNotFoundError\<close> instead of answering, whereas the first-run
  endpoint answers with status \<open>500\<close> and the text of the exception when the test set is
  missing.
\<close>

theorem scoring_stats_raises:
  "scoring_stats mini_library example_config example_fs
     = Inl (FileNotFoundError ''[Errno 2] No such file or directory: prod/trainedmodel.pkl'',
            example_fs) \<and>
   first_run mini_library example_config (example_fs(''test'' := None))
     = Inr ((ErrorBody ''[Errno 2] No such file or directory: test/testdata.csv'', 500),
            example_fs(''test'' := None, ''out'' \<mapsto> trained_out))"
  by (simp add: scoring_stats_def first_run_def first_run_stages_def no_such_file_def
        pipeline_simps example_simps mini_simps fs_simps)

end
